theory Spec2Isabelle
  imports Main "HOL-Library.Word"
begin

section \<open>The RAW preview extractor (wrapper.cpp, Android and Windows)\<close>

text \<open>
  The two wrapper.cpp files drive the LibRaw codec through open, unpack, render and
  materialise calls and hand the pixels to the caller in a malloc'ed buffer. LibRaw is
  an external library: the model takes its answers from a record of functions (a scripted
  codec) and embeds the wrapper's own control flow, its integer conversions, its
  allocation and its copy loops. C++ undefined behaviour (a read or write outside a
  block, signed overflow, freeing a pointer that is not a live block) is a value of
  type \<open>fault\<close>. The platform is the usual LP64/LLP64 one: \<open>int\<close> has 32 bits,
  \<open>size_t\<close> has 64, \<open>ushort\<close> has 16.
\<close>

subsection \<open>Bytes, pointers and the heap\<close>

type_synonym byte = "8 word"

datatype ptr = nullptr | Ptr nat

datatype fault = Out_of_bounds | Signed_overflow | Invalid_free

text \<open>
  The heap is the list of live blocks, each a base address with its bytes. Whether
  \<open>malloc\<close> serves a request of \<open>n\<close> bytes is for the environment to say
  (\<open>grant\<close>), and so is what a fresh block holds before it is written (\<open>junk\<close>).
\<close>

record heap =
  blocks :: "(nat \<times> byte list) list"
  grant :: "nat \<Rightarrow> bool"
  junk :: "nat \<Rightarrow> byte"

definition fresh :: "(nat \<times> byte list) list \<Rightarrow> nat" where
  "fresh bs = Suc (fold max (map fst bs) 0)"

definition malloc :: "heap \<Rightarrow> nat \<Rightarrow> ptr \<times> heap" where
  "malloc h n =
     (if grant h n
      then (Ptr (fresh (blocks h)),
            h\<lparr>blocks := (fresh (blocks h), map (junk h) [0..<n]) # blocks h\<rparr>)
      else (nullptr, h))"

definition block :: "heap \<Rightarrow> nat \<Rightarrow> byte list option" where
  "block h a = map_of (blocks h) a"

definition store :: "heap \<Rightarrow> nat \<Rightarrow> byte list \<Rightarrow> heap" where
  "store h a bs = h\<lparr>blocks := (a, bs) # filter (\<lambda>e. fst e \<noteq> a) (blocks h)\<rparr>"

definition free :: "heap \<Rightarrow> nat \<Rightarrow> fault + heap" where
  "free h a =
     (case block h a of
        None \<Rightarrow> Inl Invalid_free
      | Some bs \<Rightarrow> Inr (h\<lparr>blocks := filter (\<lambda>e. fst e \<noteq> a) (blocks h)\<rparr>))"

text \<open>\<^verbatim>\<open>memcpy(dst, src, n)\<close>: the first \<open>n\<close> bytes of the block at \<open>dst\<close> become
  the first \<open>n\<close> bytes of \<open>src\<close>.\<close>

definition memcpy :: "heap \<Rightarrow> nat \<Rightarrow> byte list \<Rightarrow> nat \<Rightarrow> fault + heap" where
  "memcpy h dst src n =
     (case block h dst of
        None \<Rightarrow> Inl Out_of_bounds
      | Some old \<Rightarrow>
          if n \<le> length src \<and> n \<le> length old
          then Inr (store h dst (take n src @ drop n old))
          else Inl Out_of_bounds)"

subsection \<open>C integers\<close>

definition INT_MAX :: int where
  "INT_MAX = 2147483647"

text \<open>The conversion of an \<open>int\<close> to \<open>size_t\<close>, as \<open>malloc\<close> and \<open>memcpy\<close>
  receive \<open>result.size\<close>: a negative value wraps modulo \<open>2 ^ 64\<close>.\<close>

definition size_t :: "int \<Rightarrow> nat" where
  "size_t x = nat (x mod 2 ^ 64)"

subsection \<open>free_buffer\<close>

text \<open>
  \<^verbatim>\<open>
  EXPORT void free_buffer(uint8_t* buffer) {
      if (buffer) { free(buffer); }
  }
  \<close>
\<close>

definition free_buffer :: "heap \<Rightarrow> ptr \<Rightarrow> fault + heap" where
  "free_buffer h buffer =
     (case buffer of
        nullptr \<Rightarrow> Inr h
      | Ptr a \<Rightarrow> free h a)"

subsection \<open>The channel-reversal loop\<close>

text \<open>
  \<^verbatim>\<open>
  for (int i = 0; i < total_pixels; ++i) {
      dst[i * 3 + 0] = src[i * 3 + 2]; // B
      dst[i * 3 + 1] = src[i * 3 + 1]; // G
      dst[i * 3 + 2] = src[i * 3 + 0]; // R
  }
  \<close>
  The counter starts at 0 and only grows, so it is a \<open>nat\<close>; the bound is the
  \<open>int\<close> the source computes. An iteration whose largest index \<open>i * 3 + 2\<close> does
  not fit an \<open>int\<close>, or lies outside \<open>src\<close> or \<open>dst\<close>, is undefined behaviour.
\<close>

function swap_loop :: "byte list \<Rightarrow> byte list \<Rightarrow> nat \<Rightarrow> int \<Rightarrow> fault + byte list" where
  "swap_loop src dst i total_pixels =
     (if int i < total_pixels then
        if INT_MAX < int i * 3 + 2 then Inl Signed_overflow
        else if length src \<le> i * 3 + 2 \<or> length dst \<le> i * 3 + 2 then Inl Out_of_bounds
        else swap_loop src
               (dst[i * 3 + 0 := src ! (i * 3 + 2),
                    i * 3 + 1 := src ! (i * 3 + 1),
                    i * 3 + 2 := src ! (i * 3 + 0)])
               (Suc i) total_pixels
      else Inr dst)"
  by pat_completeness auto
termination
  by (relation "measure (\<lambda>(src, dst, i, total_pixels). nat (total_pixels - int i))") auto

declare swap_loop.simps [simp del]

text \<open>The loop run on the block at \<open>dst\<close>.\<close>

definition swap_channels :: "heap \<Rightarrow> nat \<Rightarrow> byte list \<Rightarrow> int \<Rightarrow> fault + heap" where
  "swap_channels h dst src total_pixels =
     (case block h dst of
        None \<Rightarrow> Inl Out_of_bounds
      | Some old \<Rightarrow>
          (case swap_loop src old 0 total_pixels of
             Inl f \<Rightarrow> Inl f
           | Inr out \<Rightarrow> Inr (store h dst out)))"

subsection \<open>The codec\<close>

text \<open>
  libraw.h is not part of the repository. Of its constants the wrapper needs the success
  code and the two image types; the Windows wrapper quotes the latter two
  (\<^verbatim>\<open>LIBRAW_IMAGE_JPEG = 1\<close>, \<^verbatim>\<open>LIBRAW_IMAGE_BITMAP = 2\<close>).
\<close>

definition LIBRAW_SUCCESS :: int where
  "LIBRAW_SUCCESS = 0"

definition LIBRAW_IMAGE_JPEG :: int where
  "LIBRAW_IMAGE_JPEG = 1"

definition LIBRAW_IMAGE_BITMAP :: int where
  "LIBRAW_IMAGE_BITMAP = 2"

text \<open>\<^verbatim>\<open>libraw_processed_image_t\<close>: the fields the wrapper reads, at their C widths.\<close>

record libraw_processed_image_t =
  img_type :: int
  img_height :: "16 word"
  img_width :: "16 word"
  img_data_size :: "32 word"
  img_data :: "byte list"

text \<open>\<^verbatim>\<open>imgdata.params\<close>: the four fields the wrapper writes.\<close>

record libraw_output_params_t =
  use_camera_wb :: int
  half_size :: int
  output_bps :: int
  output_color :: int

text \<open>What a processor is opened on: a narrow path (Android), a wide path (Windows) or
  a caller's buffer with its length.\<close>

datatype input = File string | WFile "16 word list" | Buffer "byte list" nat

datatype call =
    Open | Unpack_thumb | Dcraw_make_mem_thumb | Unpack | Dcraw_process
  | Dcraw_make_mem_image | Dcraw_clear_mem | Recycle | Destructor

text \<open>
  A \<open>LibRaw\<close> object, as far as the wrapper can tell: its parameter block, the source it
  holds, and the calls made on it so far.
\<close>

record LibRaw =
  imgdata_params :: libraw_output_params_t
  opened :: "input option"
  calls :: "call list"

text \<open>
  The scripted codec: what each LibRaw call answers, given the source the processor holds
  and its parameter block. The codec is deterministic: the same source and parameters get
  the same answer.
\<close>

record codec =
  default_params :: libraw_output_params_t
  open_rc :: "input \<Rightarrow> libraw_output_params_t \<Rightarrow> int"
  unpack_thumb_rc :: "input option \<Rightarrow> libraw_output_params_t \<Rightarrow> int"
  mem_thumb :: "input option \<Rightarrow> libraw_output_params_t \<Rightarrow> libraw_processed_image_t option"
  unpack_rc :: "input option \<Rightarrow> libraw_output_params_t \<Rightarrow> int"
  process_rc :: "input option \<Rightarrow> libraw_output_params_t \<Rightarrow> int"
  mem_image :: "input option \<Rightarrow> libraw_output_params_t \<Rightarrow> libraw_processed_image_t option"

definition called :: "call \<Rightarrow> LibRaw \<Rightarrow> LibRaw" where
  "called c rp = rp\<lparr>calls := calls rp @ [c]\<rparr>"

text \<open>\<^verbatim>\<open>LibRaw RawProcessor;\<close>\<close>

definition LibRaw_new :: "codec \<Rightarrow> LibRaw" where
  "LibRaw_new C = \<lparr>imgdata_params = default_params C, opened = None, calls = []\<rparr>"

text \<open>\<^verbatim>\<open>open_file\<close> (both overloads) and \<^verbatim>\<open>open_buffer\<close>: the processor
  holds the source when the call succeeds.\<close>

definition open_input :: "codec \<Rightarrow> LibRaw \<Rightarrow> input \<Rightarrow> int \<times> LibRaw" where
  "open_input C rp src =
     (let rc = open_rc C src (imgdata_params rp)
      in (rc, called Open (rp\<lparr>opened := (if rc = LIBRAW_SUCCESS then Some src else None)\<rparr>)))"

definition unpack_thumb :: "codec \<Rightarrow> LibRaw \<Rightarrow> int \<times> LibRaw" where
  "unpack_thumb C rp = (unpack_thumb_rc C (opened rp) (imgdata_params rp), called Unpack_thumb rp)"

definition dcraw_make_mem_thumb :: "codec \<Rightarrow> LibRaw \<Rightarrow> libraw_processed_image_t option \<times> LibRaw" where
  "dcraw_make_mem_thumb C rp =
     (mem_thumb C (opened rp) (imgdata_params rp), called Dcraw_make_mem_thumb rp)"

definition unpack :: "codec \<Rightarrow> LibRaw \<Rightarrow> int \<times> LibRaw" where
  "unpack C rp = (unpack_rc C (opened rp) (imgdata_params rp), called Unpack rp)"

definition dcraw_process :: "codec \<Rightarrow> LibRaw \<Rightarrow> int \<times> LibRaw" where
  "dcraw_process C rp = (process_rc C (opened rp) (imgdata_params rp), called Dcraw_process rp)"

definition dcraw_make_mem_image :: "codec \<Rightarrow> LibRaw \<Rightarrow> libraw_processed_image_t option \<times> LibRaw" where
  "dcraw_make_mem_image C rp =
     (mem_image C (opened rp) (imgdata_params rp), called Dcraw_make_mem_image rp)"

text \<open>\<^verbatim>\<open>LibRaw::dcraw_clear_mem\<close> gives a materialised image back to the codec.\<close>

definition dcraw_clear_mem :: "LibRaw \<Rightarrow> LibRaw" where
  "dcraw_clear_mem rp = called Dcraw_clear_mem rp"

text \<open>\<^verbatim>\<open>recycle()\<close> resets the processor: it holds no source afterwards.\<close>

definition recycle :: "LibRaw \<Rightarrow> LibRaw" where
  "recycle rp = called Recycle (rp\<lparr>opened := None\<rparr>)"

text \<open>
  \<open>RawProcessor\<close> is a local object: C++ runs its destructor at every \<open>return\<close>
  of the function that declares it, and with the object goes whatever it still held.
\<close>

definition destructor :: "LibRaw \<Rightarrow> LibRaw" where
  "destructor rp = called Destructor (rp\<lparr>opened := None\<rparr>)"

subsection \<open>The result descriptors\<close>

text \<open>
  \<^verbatim>\<open>
  struct ImageResult     { uint8_t* data; int size; int width; int height; };
  struct ThumbnailResult { uint8_t* data; int size; int width; int height; int format; };
  \<close>
  The field \<open>size\<close> is \<open>size'\<close> here (HOL has a \<open>size\<close> of its own). The
  \<open>int\<close> fields only ever receive 0, 1, an \<open>ushort\<close> or the 32 bits of
  \<open>data_size\<close>, so they are HOL integers within the range of \<open>int\<close>.
\<close>

record ImageResult =
  data :: ptr
  size' :: int
  width :: int
  height :: int

record ThumbnailResult = ImageResult +
  format :: int

subsection \<open>The blocks both wrappers share\<close>

text \<open>
  The embedded thumbnail's payload, copied as it is
  (Android lines 46--59, Windows lines 51--67):
  \<^verbatim>\<open>
  result.size = thumb->data_size;
  result.data = (uint8_t*)malloc(result.size);
  if (result.data) { memcpy(result.data, thumb->data, result.size); }
  if (thumb->type == LIBRAW_IMAGE_JPEG) { result.format = 0; }
  else if (thumb->type == LIBRAW_IMAGE_BITMAP) {
      result.format = 1; result.width = thumb->width; result.height = thumb->height; }
  \<close>
  \<open>data_size\<close> is an \<open>unsigned\<close> stored in an \<open>int\<close>: \<open>sint\<close> reads its 32 bits
  as the \<open>int\<close> does.
\<close>

definition copy_thumb ::
  "heap \<Rightarrow> ThumbnailResult \<Rightarrow> libraw_processed_image_t \<Rightarrow> fault + (ThumbnailResult \<times> heap)" where
  "copy_thumb h result thumb =
     (let result = result\<lparr>size' := sint (img_data_size thumb)\<rparr>;
          (p, h1) = malloc h (size_t (size' result));
          result = result\<lparr>data := p\<rparr>;
          copied = (case p of
                      nullptr \<Rightarrow> Inr h1
                    | Ptr dst \<Rightarrow> memcpy h1 dst (img_data thumb) (size_t (size' result)))
      in case copied of
           Inl f \<Rightarrow> Inl f
         | Inr h2 \<Rightarrow>
             Inr (if img_type thumb = LIBRAW_IMAGE_JPEG then result\<lparr>format := 0\<rparr>
                  else if img_type thumb = LIBRAW_IMAGE_BITMAP
                  then result\<lparr>format := 1,
                              width := uint (img_width thumb),
                              height := uint (img_height thumb)\<rparr>
                  else result,
                  h2))"

text \<open>
  The rendered image, converted (Android lines 79--95 and 156--171, Windows lines 89--109
  and 149--165):
  \<^verbatim>\<open>
  result.width = image->width;
  result.height = image->height;
  result.size = image->data_size;
  result.data = (uint8_t*)malloc(result.size);
  if (result.data) {
      uint8_t* src = image->data;
      uint8_t* dst = result.data;
      int total_pixels = result.width * result.height;
      for (...) { ... }
  }
  \<close>
  It serves both descriptors: the thumbnail path sets \<open>format\<close> before it.
  (\<open>img\<close> stands for the source's \<open>image\<close>, which HOL uses for the image of a set.)
\<close>

definition convert_image ::
  "heap \<Rightarrow> 'a ImageResult_scheme \<Rightarrow> libraw_processed_image_t
     \<Rightarrow> fault + ('a ImageResult_scheme \<times> heap)" where
  "convert_image h result img =
     (let result = result\<lparr>width := uint (img_width img),
                          height := uint (img_height img),
                          size' := sint (img_data_size img)\<rparr>;
          (p, h1) = malloc h (size_t (size' result));
          result = result\<lparr>data := p\<rparr>
      in case p of
           nullptr \<Rightarrow> Inr (result, h1)
         | Ptr dst \<Rightarrow>
             (let total_pixels = width result * height result
              in if INT_MAX < total_pixels then Inl Signed_overflow
                 else case swap_channels h1 dst (img_data img) total_pixels of
                        Inl f \<Rightarrow> Inl f
                      | Inr h2 \<Rightarrow> Inr (result, h2)))"

text \<open>
  The fallback of the thumbnail path (Android lines 68--105, Windows lines 79--113): the
  parameters are fixed, then unpack, render, materialise, convert. A stage that fails
  leaves \<open>result\<close> as it was.
\<close>

definition fallback ::
  "codec \<Rightarrow> heap \<Rightarrow> ThumbnailResult \<Rightarrow> LibRaw \<Rightarrow> fault + (ThumbnailResult \<times> heap \<times> LibRaw)" where
  "fallback C h result RawProcessor =
     (let rp = RawProcessor\<lparr>imgdata_params :=
                 (imgdata_params RawProcessor)\<lparr>use_camera_wb := 1, half_size := 1, output_bps := 8\<rparr>\<rparr>;
          (rc, rp) = unpack C rp
      in if rc = LIBRAW_SUCCESS then
           (let (rc, rp) = dcraw_process C rp
            in if rc = LIBRAW_SUCCESS then
                 (let (image, rp) = dcraw_make_mem_image C rp
                  in case image of
                       Some img \<Rightarrow>
                         (case convert_image h (result\<lparr>format := 1\<rparr>) img of
                            Inl f \<Rightarrow> Inl f
                          | Inr (result, h') \<Rightarrow> Inr (result, h', dcraw_clear_mem rp))
                     | None \<Rightarrow> Inr (result, h, rp))
               else Inr (result, h, rp))
         else Inr (result, h, rp))"

subsection \<open>Android: wrapper.cpp\<close>

definition process_thumbnail ::
  "codec \<Rightarrow> heap \<Rightarrow> LibRaw \<Rightarrow> fault + (ThumbnailResult \<times> heap \<times> LibRaw)" where
  "process_thumbnail C h RawProcessor =
     (let result = \<lparr>data = nullptr, size' = 0, width = 0, height = 0, format = 0\<rparr>;
          (rc, rp) = unpack_thumb C RawProcessor
      in if rc = LIBRAW_SUCCESS then
           (let (thumb, rp) = dcraw_make_mem_thumb C rp
            in case thumb of
                 Some t \<Rightarrow>
                   (case copy_thumb h result t of
                      Inl f \<Rightarrow> Inl f
                    | Inr (result, h') \<Rightarrow> Inr (result, h', dcraw_clear_mem rp))
               | None \<Rightarrow> fallback C h result rp)
         else fallback C h result rp)"

definition get_thumbnail ::
  "codec \<Rightarrow> heap \<Rightarrow> string \<Rightarrow> fault + (ThumbnailResult \<times> heap \<times> LibRaw)" where
  "get_thumbnail C h file_path =
     (let (ret, rp) = open_input C (LibRaw_new C) (File file_path)
      in if ret \<noteq> LIBRAW_SUCCESS
         then Inr (\<lparr>data = nullptr, size' = 0, width = 0, height = 0, format = 0\<rparr>, h,
                   destructor rp)
         else case process_thumbnail C h rp of
                Inl f \<Rightarrow> Inl f
              | Inr (result, h', rp) \<Rightarrow> Inr (result, h', destructor (recycle rp)))"

definition get_thumbnail_from_buffer ::
  "codec \<Rightarrow> heap \<Rightarrow> byte list \<Rightarrow> nat \<Rightarrow> fault + (ThumbnailResult \<times> heap \<times> LibRaw)" where
  "get_thumbnail_from_buffer C h buffer len =
     (let (ret, rp) = open_input C (LibRaw_new C) (Buffer buffer len)
      in if ret \<noteq> LIBRAW_SUCCESS
         then Inr (\<lparr>data = nullptr, size' = 0, width = 0, height = 0, format = 0\<rparr>, h,
                   destructor rp)
         else case process_thumbnail C h rp of
                Inl f \<Rightarrow> Inl f
              | Inr (result, h', rp) \<Rightarrow> Inr (result, h', destructor (recycle rp)))"

definition process_preview ::
  "codec \<Rightarrow> heap \<Rightarrow> LibRaw \<Rightarrow> int \<Rightarrow> fault + (ImageResult \<times> heap \<times> LibRaw)" where
  "process_preview C h RawProcessor half_size' =
     (let result = \<lparr>data = nullptr, size' = 0, width = 0, height = 0\<rparr>;
          rp = RawProcessor\<lparr>imgdata_params :=
                 (imgdata_params RawProcessor)\<lparr>use_camera_wb := 1, half_size := half_size',
                                              output_bps := 8, output_color := 1\<rparr>\<rparr>;
          (rc, rp) = unpack C rp
      in if rc \<noteq> LIBRAW_SUCCESS then Inr (result, h, rp)
         else
           (let (rc, rp) = dcraw_process C rp
            in if rc \<noteq> LIBRAW_SUCCESS then Inr (result, h, rp)
               else
                 (let (image, rp) = dcraw_make_mem_image C rp
                  in case image of
                       Some img \<Rightarrow>
                         (case convert_image h result img of
                            Inl f \<Rightarrow> Inl f
                          | Inr (result, h') \<Rightarrow> Inr (result, h', dcraw_clear_mem rp))
                     | None \<Rightarrow> Inr (result, h, rp))))"

definition get_preview ::
  "codec \<Rightarrow> heap \<Rightarrow> string \<Rightarrow> int \<Rightarrow> fault + (ImageResult \<times> heap \<times> LibRaw)" where
  "get_preview C h file_path half_size' =
     (let (ret, rp) = open_input C (LibRaw_new C) (File file_path)
      in if ret \<noteq> LIBRAW_SUCCESS
         then Inr (\<lparr>data = nullptr, size' = 0, width = 0, height = 0\<rparr>, h, destructor rp)
         else case process_preview C h rp half_size' of
                Inl f \<Rightarrow> Inl f
              | Inr (result, h', rp) \<Rightarrow> Inr (result, h', destructor (recycle rp)))"

definition get_preview_from_buffer ::
  "codec \<Rightarrow> heap \<Rightarrow> byte list \<Rightarrow> nat \<Rightarrow> int \<Rightarrow> fault + (ImageResult \<times> heap \<times> LibRaw)" where
  "get_preview_from_buffer C h buffer len half_size' =
     (let (ret, rp) = open_input C (LibRaw_new C) (Buffer buffer len)
      in if ret \<noteq> LIBRAW_SUCCESS
         then Inr (\<lparr>data = nullptr, size' = 0, width = 0, height = 0\<rparr>, h, destructor rp)
         else case process_preview C h rp half_size' of
                Inl f \<Rightarrow> Inl f
              | Inr (result, h', rp) \<Rightarrow> Inr (result, h', destructor (recycle rp)))"

subsection \<open>Windows: wrapper.cpp\<close>

text \<open>The Windows file has no helper functions: each entry point opens, decodes and
  recycles in one body, and \<open>get_preview\<close> sets the parameters before it opens.\<close>

definition get_thumbnail_win ::
  "codec \<Rightarrow> heap \<Rightarrow> 16 word list \<Rightarrow> fault + (ThumbnailResult \<times> heap \<times> LibRaw)" where
  "get_thumbnail_win C h file_path =
     (let result = \<lparr>data = nullptr, size' = 0, width = 0, height = 0, format = 0\<rparr>;
          (ret, rp) = open_input C (LibRaw_new C) (WFile file_path)
      in if ret \<noteq> LIBRAW_SUCCESS then Inr (result, h, destructor rp)
         else
           (let (rc, rp) = unpack_thumb C rp;
                (thumb, rp) = (if rc = LIBRAW_SUCCESS then dcraw_make_mem_thumb C rp
                               else (None, rp))
            in case thumb of
                 Some t \<Rightarrow>
                   (case copy_thumb h result t of
                      Inl f \<Rightarrow> Inl f
                    | Inr (result, h') \<Rightarrow>
                        Inr (result, h', destructor (recycle (dcraw_clear_mem rp))))
               | None \<Rightarrow>
                   (case fallback C h result rp of
                      Inl f \<Rightarrow> Inl f
                    | Inr (result, h', rp) \<Rightarrow> Inr (result, h', destructor (recycle rp)))))"

definition get_preview_win ::
  "codec \<Rightarrow> heap \<Rightarrow> 16 word list \<Rightarrow> int \<Rightarrow> fault + (ImageResult \<times> heap \<times> LibRaw)" where
  "get_preview_win C h file_path half_size' =
     (let result = \<lparr>data = nullptr, size' = 0, width = 0, height = 0\<rparr>;
          rp = (LibRaw_new C)\<lparr>imgdata_params :=
                 (imgdata_params (LibRaw_new C))\<lparr>use_camera_wb := 1, half_size := half_size',
                                                 output_bps := 8, output_color := 1\<rparr>\<rparr>;
          (ret, rp) = open_input C rp (WFile file_path)
      in if ret \<noteq> LIBRAW_SUCCESS then Inr (result, h, destructor rp)
         else
           (let (rc, rp) = unpack C rp
            in if rc \<noteq> LIBRAW_SUCCESS then Inr (result, h, destructor (recycle rp))
               else
                 (let (rc, rp) = dcraw_process C rp
                  in if rc \<noteq> LIBRAW_SUCCESS then Inr (result, h, destructor (recycle rp))
                     else
                       (let (image, rp) = dcraw_make_mem_image C rp
                        in case image of
                             Some img \<Rightarrow>
                               (case convert_image h result img of
                                  Inl f \<Rightarrow> Inl f
                                | Inr (result, h') \<Rightarrow>
                                    Inr (result, h', destructor (recycle (dcraw_clear_mem rp))))
                           | None \<Rightarrow> Inr (result, h, destructor (recycle rp))))))"

subsection \<open>The decode operations, by source\<close>

text \<open>
  The exported decode operations, indexed by the source they open: a narrow path is
  Android's \<open>get_thumbnail\<close> and \<open>get_preview\<close>, a buffer is Android's
  \<open>_from_buffer\<close> pair, a wide path is the Windows pair.
\<close>

fun decode_thumbnail ::
  "codec \<Rightarrow> heap \<Rightarrow> input \<Rightarrow> fault + (ThumbnailResult \<times> heap \<times> LibRaw)" where
  "decode_thumbnail C h (File file_path) = get_thumbnail C h file_path"
| "decode_thumbnail C h (Buffer buffer len) = get_thumbnail_from_buffer C h buffer len"
| "decode_thumbnail C h (WFile file_path) = get_thumbnail_win C h file_path"

fun decode_preview ::
  "codec \<Rightarrow> heap \<Rightarrow> input \<Rightarrow> int \<Rightarrow> fault + (ImageResult \<times> heap \<times> LibRaw)" where
  "decode_preview C h (File file_path) half_size' = get_preview C h file_path half_size'"
| "decode_preview C h (Buffer buffer len) half_size' =
     get_preview_from_buffer C h buffer len half_size'"
| "decode_preview C h (WFile file_path) half_size' = get_preview_win C h file_path half_size'"

text \<open>The parameter block the codec sees in the thumbnail path's fallback, and in the
  preview path.\<close>

definition fallback_params :: "codec \<Rightarrow> libraw_output_params_t" where
  "fallback_params C = (default_params C)\<lparr>use_camera_wb := 1, half_size := 1, output_bps := 8\<rparr>"

definition preview_params :: "codec \<Rightarrow> int \<Rightarrow> libraw_output_params_t" where
  "preview_params C half_size' =
     (default_params C)\<lparr>use_camera_wb := 1, half_size := half_size',
                        output_bps := 8, output_color := 1\<rparr>"

text \<open>The parameter block at the time of the open call: Windows' \<open>get_preview\<close> has
  set the preview parameters by then, every other operation opens a fresh processor.\<close>

fun preview_open_params :: "codec \<Rightarrow> input \<Rightarrow> int \<Rightarrow> libraw_output_params_t" where
  "preview_open_params C (WFile file_path) half_size' = preview_params C half_size'"
| "preview_open_params C src half_size' = default_params C"

subsection \<open>What the codec is taken to deliver\<close>

text \<open>
  A materialised image carries \<open>data_size\<close> bytes at \<open>data\<close>, and the size fits the
  \<open>int\<close> the descriptors store it in.
\<close>

definition payload_ok :: "libraw_processed_image_t \<Rightarrow> bool" where
  "payload_ok t \<longleftrightarrow>
     length (img_data t) = unat (img_data_size t) \<and> uint (img_data_size t) \<le> INT_MAX"

text \<open>
  The conversion of a rendered image runs over \<open>width \<times> height\<close> pixels of 3 bytes. It
  stays inside the codec's data and inside the buffer of \<open>data_size\<close> bytes, with indices
  that fit an \<open>int\<close>, exactly when:
\<close>

definition holds_pixels :: "libraw_processed_image_t \<Rightarrow> bool" where
  "holds_pixels img \<longleftrightarrow>
     3 * (unat (img_width img) * unat (img_height img)) \<le> length (img_data img) \<and>
     3 * (unat (img_width img) * unat (img_height img)) \<le> size_t (sint (img_data_size img)) \<and>
     3 * (uint (img_width img) * uint (img_height img)) \<le> INT_MAX + 1"

text \<open>What the extraction of the embedded thumbnail yields on a freshly opened source:
  \<open>unpack_thumb\<close>, then \<open>dcraw_make_mem_thumb\<close>.\<close>

definition embedded_thumb :: "codec \<Rightarrow> input \<Rightarrow> libraw_processed_image_t option" where
  "embedded_thumb C src =
     (if unpack_thumb_rc C (Some src) (default_params C) = LIBRAW_SUCCESS
      then mem_thumb C (Some src) (default_params C)
      else None)"

text \<open>What unpack, render and materialise yield under a parameter block.\<close>

definition rendered ::
  "codec \<Rightarrow> input \<Rightarrow> libraw_output_params_t \<Rightarrow> libraw_processed_image_t option" where
  "rendered C src P =
     (if unpack_rc C (Some src) P = LIBRAW_SUCCESS
      then if process_rc C (Some src) P = LIBRAW_SUCCESS then mem_image C (Some src) P else None
      else None)"



text \<open>Pixel \<open>i\<close> of \<open>out\<close> is pixel \<open>i\<close> of \<open>src\<close> with its channels reversed.\<close>

definition reversed_at :: "byte list \<Rightarrow> byte list \<Rightarrow> nat \<Rightarrow> bool" where
  "reversed_at out src i \<longleftrightarrow>
     out ! (3 * i) = src ! (3 * i + 2) \<and>
     out ! (3 * i + 1) = src ! (3 * i + 1) \<and>
     out ! (3 * i + 2) = src ! (3 * i)"

text \<open>The descriptor a call returns, when it returns.\<close>

definition result_of :: "fault + ('r \<times> heap \<times> LibRaw) \<Rightarrow> 'r option" where
  "result_of r = (case r of Inl f \<Rightarrow> None | Inr (res, h, rp) \<Rightarrow> Some res)"

subsection \<open>Scripted codecs and heaps for concrete runs\<close>

definition roomy :: heap where
  "roomy = \<lparr>blocks = [], grant = (\<lambda>n. True), junk = (\<lambda>i. 0)\<rparr>"


text \<open>A codec that opens every source if \<open>opens\<close>, has the embedded thumbnail \<open>thumb\<close>
  (or none), and renders \<open>render hs\<close> at half-size flag \<open>hs\<close>.\<close>

definition scripted ::
  "bool \<Rightarrow> libraw_processed_image_t option \<Rightarrow> (int \<Rightarrow> libraw_processed_image_t option) \<Rightarrow> codec" where
  "scripted opens thumb render =
     \<lparr>default_params = \<lparr>use_camera_wb = 0, half_size = 0, output_bps = 8, output_color = 1\<rparr>,
      open_rc = (\<lambda>src P. if opens then 0 else - 2),
      unpack_thumb_rc = (\<lambda>src P. if thumb = None then - 5 else 0),
      mem_thumb = (\<lambda>src P. thumb),
      unpack_rc = (\<lambda>src P. 0),
      process_rc = (\<lambda>src P. 0),
      mem_image = (\<lambda>src P. render (half_size P))\<rparr>"

definition jpeg3 :: libraw_processed_image_t where
  "jpeg3 = \<lparr>img_type = 1, img_height = 0, img_width = 0, img_data_size = 3,
            img_data = [255, 216, 255]\<rparr>"

definition bitmap1x1 :: libraw_processed_image_t where
  "bitmap1x1 = \<lparr>img_type = 2, img_height = 1, img_width = 1, img_data_size = 3,
                img_data = [7, 8, 9]\<rparr>"


definition half2x1 :: libraw_processed_image_t where
  "half2x1 = \<lparr>img_type = 2, img_height = 1, img_width = 2, img_data_size = 6,
              img_data = [10, 20, 30, 40, 50, 60]\<rparr>"

definition full4x2 :: libraw_processed_image_t where
  "full4x2 = \<lparr>img_type = 2, img_height = 2, img_width = 4, img_data_size = 24,
              img_data = [1, 2, 3, 4, 5, 6, 7, 8, 9, 10, 11, 12,
                          13, 14, 15, 16, 17, 18, 19, 20, 21, 22, 23, 24]\<rparr>"

definition mono2x1 :: libraw_processed_image_t where
  "mono2x1 = \<lparr>img_type = 2, img_height = 1, img_width = 2, img_data_size = 2,
              img_data = [10, 20]\<rparr>"

definition renders_mono :: "int \<Rightarrow> libraw_processed_image_t option" where
  "renders_mono hs = Some mono2x1"

definition big_payload :: "byte list" where
  "big_payload = replicate 2147483651 0"

definition huge_jpeg :: libraw_processed_image_t where
  "huge_jpeg = \<lparr>img_type = 1, img_height = 0, img_width = 0, img_data_size = 2147483651,
                img_data = big_payload\<rparr>"

definition modest :: heap where
  "modest = \<lparr>blocks = [], grant = (\<lambda>n. n < 2 ^ 48), junk = (\<lambda>i. 0)\<rparr>"

definition padded2x1 :: libraw_processed_image_t where
  "padded2x1 = \<lparr>img_type = 2, img_height = 1, img_width = 2, img_data_size = 8,
                img_data = [10, 20, 30, 40, 50, 60, 70, 80]\<rparr>"

definition renders_padded :: "int \<Rightarrow> libraw_processed_image_t option" where
  "renders_padded hs = Some padded2x1"

definition vast :: libraw_processed_image_t where
  "vast = \<lparr>img_type = 2, img_height = 65535, img_width = 65535, img_data_size = 6,
           img_data = [10, 20, 30, 40, 50, 60]\<rparr>"

definition renders_vast :: "int \<Rightarrow> libraw_processed_image_t option" where
  "renders_vast hs = Some vast"

definition both_sizes :: "int \<Rightarrow> libraw_processed_image_t option" where
  "both_sizes hs = (if hs = 0 then Some full4x2 else Some half2x1)"


definition renders_nothing :: "int \<Rightarrow> libraw_processed_image_t option" where
  "renders_nothing hs = None"

definition half_only :: "int \<Rightarrow> libraw_processed_image_t option" where
  "half_only hs = (if hs = 0 then None else Some half2x1)"

section \<open>Properties\<close>

subsection \<open>The heap\<close>

lemma fold_max_le: "(m::nat) \<le> fold max xs m"
proof (induction xs arbitrary: m)
  case Nil
  show ?case by simp
next
  case (Cons x xs)
  have "m \<le> max x m" by simp
  also have "max x m \<le> fold max xs (max x m)" by (rule Cons.IH)
  finally show ?case by simp
qed

lemma fold_max_ge: "a \<in> set xs \<Longrightarrow> a \<le> fold max xs (m::nat)"
proof (induction xs arbitrary: m)
  case Nil
  then show ?case by simp
next
  case (Cons x xs)
  show ?case
  proof (cases "a = x")
    case True
    have "max x m \<le> fold max xs (max x m)" by (rule fold_max_le)
    with True show ?thesis by simp
  next
    case False
    with Cons show ?thesis by simp
  qed
qed

text \<open>\<open>malloc\<close> never hands out the address of a live block.\<close>

lemma fresh_not_live: "map_of bs (fresh bs) = None"
proof -
  have "fresh bs \<notin> fst ` set bs"
  proof
    assume "fresh bs \<in> fst ` set bs"
    then have "fresh bs \<in> set (map fst bs)" by simp
    then have "fresh bs \<le> fold max (map fst bs) 0" by (rule fold_max_ge)
    then show False by (simp add: fresh_def)
  qed
  then show ?thesis by (simp add: map_of_eq_None_iff)
qed

lemma block_fresh: "block h (fresh (blocks h)) = None"
  by (simp add: block_def fresh_not_live)

lemma block_store: "block (store h a bs) a = Some bs"
  by (simp add: block_def store_def)

subsection \<open>Integer conversions\<close>

lemma sint_small: "uint (x::32 word) \<le> INT_MAX \<Longrightarrow> sint x = uint x"
proof -
  assume a: "uint x \<le> INT_MAX"
  have s: "sint x = signed_take_bit (LENGTH(32) - Suc 0) (uint x)"
    by (rule sint_uint)
  have "- (2 ^ 31) \<le> (0::int)" by simp
  also have "0 \<le> uint x" by simp
  finally have lo: "- (2 ^ 31) \<le> uint x" .
  have hi: "uint x < 2 ^ 31" using a by (simp add: INT_MAX_def)
  have "signed_take_bit 31 (uint x) = uint x"
    using lo hi by (rule signed_take_bit_int_eq_self)
  with s show ?thesis by simp
qed

lemma size_t_nat: "0 \<le> x \<Longrightarrow> x < 2 ^ 64 \<Longrightarrow> size_t x = nat x"
  by (simp add: size_t_def)

lemma payload_size:
  assumes "payload_ok t"
  shows "sint (img_data_size t) = int (length (img_data t))"
    and "size_t (sint (img_data_size t)) = length (img_data t)"
proof -
  from assms have len: "length (img_data t) = unat (img_data_size t)"
    and small: "uint (img_data_size t) \<le> INT_MAX"
    by (simp_all add: payload_ok_def)
  have u: "uint (img_data_size t) = int (length (img_data t))"
    by (simp only: len uint_nat)
  from small show s: "sint (img_data_size t) = int (length (img_data t))"
    by (simp only: sint_small u)
  have "int (length (img_data t)) < 2 ^ 64"
    using small by (simp add: u INT_MAX_def)
  then show "size_t (sint (img_data_size t)) = length (img_data t)"
    by (simp add: s size_t_nat)
qed

subsection \<open>The channel-reversal loop\<close>

text \<open>Where the loop returns, every pixel from \<open>i\<close> on is reversed, every index it
  used was in range, and what lies before pixel \<open>i\<close> is untouched.\<close>

lemma swap_loop_Inr:
  "swap_loop src dst i t = Inr out \<Longrightarrow>
     length out = length dst \<and>
     (\<forall>k. i \<le> k \<longrightarrow> int k < t \<longrightarrow> reversed_at out src k \<and> 3 * k + 2 < length src \<and> 3 * k + 2 < length dst) \<and>
     (\<forall>j < 3 * i. out ! j = dst ! j)"
proof (induction src dst i t arbitrary: out rule: swap_loop.induct)
  case (1 src dst i t)
  show ?case
  proof (cases "int i < t")
    case False
    with "1.prems" show ?thesis by (simp add: swap_loop.simps [of src dst i t])
  next
    case True
    let ?dst = "dst[i * 3 + 0 := src ! (i * 3 + 2), i * 3 + 1 := src ! (i * 3 + 1), i * 3 + 2 := src ! (i * 3 + 0)]"
    from True "1.prems" have ov: "\<not> INT_MAX < int i * 3 + 2"
      and ib: "\<not> (length src \<le> i * 3 + 2 \<or> length dst \<le> i * 3 + 2)"
      and rec: "swap_loop src ?dst (Suc i) t = Inr out"
      by (auto simp: swap_loop.simps [of src dst i t] split: if_splits)
    from "1.IH" [OF True ov ib rec]
    have len: "length out = length ?dst"
      and later: "\<And>k. Suc i \<le> k \<Longrightarrow> int k < t \<Longrightarrow> reversed_at out src k \<and> 3 * k + 2 < length src \<and> 3 * k + 2 < length ?dst"
      and frame: "\<And>j. j < 3 * Suc i \<Longrightarrow> out ! j = ?dst ! j"
      by auto
    have here: "reversed_at out src i"
      using ib frame [of "3 * i"] frame [of "3 * i + 1"] frame [of "3 * i + 2"]
      by (simp add: reversed_at_def mult.commute)
    have before: "\<And>j. j < 3 * i \<Longrightarrow> out ! j = dst ! j"
      using frame by simp
    show ?thesis
    proof (intro conjI allI impI)
      show "length out = length dst" using len by simp
    next
      fix k assume "i \<le> k" "int k < t"
      then consider "k = i" | "Suc i \<le> k" by linarith
      then show "reversed_at out src k"
        using here later \<open>int k < t\<close> by cases auto
    next
      fix k assume "i \<le> k" "int k < t"
      then consider "k = i" | "Suc i \<le> k" by linarith
      then show "3 * k + 2 < length src"
        using ib later \<open>int k < t\<close> by cases auto
    next
      fix k assume "i \<le> k" "int k < t"
      then consider "k = i" | "Suc i \<le> k" by linarith
      then show "3 * k + 2 < length dst"
        using ib later [of k] \<open>int k < t\<close> by cases auto
    next
      fix j assume "j < 3 * i"
      then show "out ! j = dst ! j" by (rule before)
    qed
  qed
qed

lemma swap_loop_defined:
  "3 * t \<le> INT_MAX + 1 \<Longrightarrow> 3 * t \<le> int (length src) \<Longrightarrow> 3 * t \<le> int (length dst) \<Longrightarrow>
   \<exists>out. swap_loop src dst i t = Inr out"
proof (induction src dst i t rule: swap_loop.induct)
  case (1 src dst i t)
  show ?case
  proof (cases "int i < t")
    case False
    then show ?thesis by (simp add: swap_loop.simps [of src dst i t])
  next
    case True
    have ov: "\<not> INT_MAX < int i * 3 + 2" using True "1.prems"(1) by linarith
    have ib: "\<not> (length src \<le> i * 3 + 2 \<or> length dst \<le> i * 3 + 2)"
      using True "1.prems"(2,3) by linarith
    from "1.IH" [OF True ov ib] "1.prems" True ov ib show ?thesis
      by (simp add: swap_loop.simps [of src dst i t])
  qed
qed

subsection \<open>The conversion of a rendered image\<close>

lemma convert_image_fields:
  "convert_image h result img = Inr (res, h') \<Longrightarrow>
     width res = uint (img_width img) \<and> height res = uint (img_height img) \<and>
     size' res = sint (img_data_size img) \<and> ImageResult.more res = ImageResult.more result"
  by (cases "grant h (size_t (sint (img_data_size img)))")
     (auto simp: convert_image_def malloc_def Let_def split: if_splits sum.splits)

lemma convert_image_refused:
  "\<not> grant h (size_t (sint (img_data_size img))) \<Longrightarrow>
   convert_image h result img =
     Inr (result\<lparr>width := uint (img_width img), height := uint (img_height img),
                 size' := sint (img_data_size img), data := nullptr\<rparr>, h)"
  by (simp add: convert_image_def malloc_def Let_def)

lemma convert_image_pixels:
  assumes conv: "convert_image h result img = Inr (res, h')" and ptr: "data res = Ptr a"
  shows "\<exists>out. block h' a = Some out \<and> block h a = None \<and>
           3 * nat (width res * height res) \<le> length out \<and>
           3 * nat (width res * height res) \<le> length (img_data img) \<and>
           (\<forall>i < nat (width res * height res). reversed_at out (img_data img) i)"
proof -
  let ?n = "size_t (sint (img_data_size img))"
  let ?t = "uint (img_width img) * uint (img_height img)"
  let ?h1 = "h\<lparr>blocks := (fresh (blocks h), map (junk h) [0..<?n]) # blocks h\<rparr>"
  let ?old = "map (junk h) [0..<?n]"
  from conv have f: "width res = uint (img_width img)" "height res = uint (img_height img)"
    by (simp_all add: convert_image_fields)
  from conv ptr have g: "grant h ?n"
    by (cases "grant h ?n") (auto simp: convert_image_def malloc_def Let_def)
  from conv ptr g have a: "a = fresh (blocks h)"
    by (auto simp: convert_image_def malloc_def Let_def split: if_splits sum.splits)
  have b1: "block ?h1 a = Some ?old" by (simp add: block_def a)
  from conv g obtain h2 where sw: "swap_channels ?h1 a (img_data img) ?t = Inr h2" and h2: "h' = h2"
    by (auto simp: convert_image_def malloc_def Let_def a split: if_splits sum.splits)
  from sw b1 obtain out where lp: "swap_loop (img_data img) ?old 0 ?t = Inr out"
    and st: "h2 = store ?h1 a out"
    by (auto simp: swap_channels_def split: sum.splits)
  from swap_loop_Inr [OF lp]
  have len: "length out = length ?old"
    and px: "\<And>k. int k < ?t \<Longrightarrow> reversed_at out (img_data img) k \<and>
                3 * k + 2 < length (img_data img) \<and> 3 * k + 2 < length ?old"
    by auto
  have bound: "3 * nat ?t \<le> length (img_data img) \<and> 3 * nat ?t \<le> length ?old"
  proof (cases "nat ?t")
    case 0
    then show ?thesis by simp
  next
    case (Suc k)
    then have "int k < ?t" by linarith
    from px [OF this] Suc show ?thesis by simp
  qed
  have "block h' a = Some out" by (simp add: h2 st block_store)
  moreover have "block h a = None" by (simp add: a block_fresh)
  moreover have "\<forall>i < nat ?t. reversed_at out (img_data img) i"
    using px by auto
  ultimately show ?thesis using bound len by (auto simp: f)
qed

lemma swap_loop_Inr_int:
  "swap_loop src dst i t = Inr out \<Longrightarrow> i \<le> k \<Longrightarrow> int k < t \<Longrightarrow> int k * 3 + 2 \<le> INT_MAX"
proof (induction src dst i t arbitrary: out rule: swap_loop.induct)
  case (1 src dst i t)
  from "1.prems" have lt: "int i < t" by linarith
  let ?dst = "dst[i * 3 + 0 := src ! (i * 3 + 2), i * 3 + 1 := src ! (i * 3 + 1), i * 3 + 2 := src ! (i * 3 + 0)]"
  from lt "1.prems"(1) have ov: "\<not> INT_MAX < int i * 3 + 2"
    and ib: "\<not> (length src \<le> i * 3 + 2 \<or> length dst \<le> i * 3 + 2)"
    and rec: "swap_loop src ?dst (Suc i) t = Inr out"
    by (auto simp: swap_loop.simps [of src dst i t] split: if_splits)
  show ?case
  proof (cases "k = i")
    case True
    with ov show ?thesis by simp
  next
    case False
    with "1.prems"(2) have "Suc i \<le> k" by simp
    from "1.IH" [OF lt ov ib rec this "1.prems"(3)] show ?thesis .
  qed
qed

lemma pixel_count: "int (unat (w::16 word) * unat (h::16 word)) = uint w * uint h"
  by (simp only: uint_nat of_nat_mult)

lemma pixel_count_nat: "nat (uint (w::16 word) * uint (h::16 word)) = unat w * unat h"
  by (simp only: pixel_count [symmetric] nat_int)

text \<open>The conversion returns when the image holds its pixels.\<close>

lemma convert_image_returns:
  assumes "holds_pixels img"
  shows "\<exists>res h'. convert_image h result img = Inr (res, h')"
proof (cases "grant h (size_t (sint (img_data_size img)))")
  case False
  then show ?thesis by (simp add: convert_image_refused)
next
  case True
  let ?n = "size_t (sint (img_data_size img))"
  let ?t = "uint (img_width img) * uint (img_height img)"
  let ?T = "unat (img_width img) * unat (img_height img)"
  let ?h1 = "h\<lparr>blocks := (fresh (blocks h), map (junk h) [0..<?n]) # blocks h\<rparr>"
  let ?old = "map (junk h) [0..<?n]"
  from assms have s: "3 * ?T \<le> length (img_data img)" and d: "3 * ?T \<le> ?n"
    and m: "3 * ?t \<le> INT_MAX + 1"
    by (simp_all add: holds_pixels_def)
  have T: "int ?T = ?t" by (rule pixel_count)
  have nonneg: "0 \<le> ?t" by simp
  have no: "\<not> INT_MAX < ?t" using m nonneg unfolding INT_MAX_def by linarith
  have s': "3 * ?t \<le> int (length (img_data img))" using s T by linarith
  have "3 * ?T \<le> length ?old" using d by simp
  then have d': "3 * ?t \<le> int (length ?old)" using T by linarith
  have "\<exists>out. swap_loop (img_data img) ?old 0 ?t = Inr out"
    using m s' d' by (rule swap_loop_defined)
  then obtain out where lp: "swap_loop (img_data img) ?old 0 ?t = Inr out" ..
  have "swap_channels ?h1 (fresh (blocks h)) (img_data img) ?t = Inr (store ?h1 (fresh (blocks h)) out)"
    by (simp add: swap_channels_def block_def lp)
  with True no show ?thesis
    by (simp add: convert_image_def malloc_def Let_def)
qed

text \<open>And only then, once \<open>malloc\<close> has served the request.\<close>

lemma convert_image_holds:
  assumes conv: "convert_image h result img = Inr (res, h')"
    and g: "grant h (size_t (sint (img_data_size img)))"
  shows "holds_pixels img"
proof -
  let ?n = "size_t (sint (img_data_size img))"
  let ?t = "uint (img_width img) * uint (img_height img)"
  let ?T = "unat (img_width img) * unat (img_height img)"
  let ?h1 = "h\<lparr>blocks := (fresh (blocks h), map (junk h) [0..<?n]) # blocks h\<rparr>"
  let ?old = "map (junk h) [0..<?n]"
  have T: "int ?T = ?t" by (rule pixel_count)
  have b1: "block ?h1 (fresh (blocks h)) = Some ?old" by (simp add: block_def)
  from conv g obtain h2 where sw: "swap_channels ?h1 (fresh (blocks h)) (img_data img) ?t = Inr h2"
    by (auto simp: convert_image_def malloc_def Let_def split: if_splits sum.splits)
  from sw b1 obtain out where lp: "swap_loop (img_data img) ?old 0 ?t = Inr out"
    by (auto simp: swap_channels_def split: sum.splits)
  show ?thesis
  proof (cases ?T)
    case 0
    have "?t = int ?T" by (rule T [symmetric])
    also have "\<dots> = 0" by (simp only: 0 of_nat_0)
    finally have "?t = 0" .
    with 0 show ?thesis by (simp only: holds_pixels_def INT_MAX_def) simp
  next
    case (Suc k)
    then have k: "int k < ?t" using T by linarith
    from swap_loop_Inr [OF lp] k
    have "3 * k + 2 < length (img_data img)" "3 * k + 2 < length ?old" by auto
    moreover from swap_loop_Inr_int [OF lp _ k] have "int k * 3 + 2 \<le> INT_MAX" by simp
    ultimately show ?thesis using Suc T by (simp add: holds_pixels_def)
  qed
qed

text \<open>The bitmap the conversion produces.\<close>

lemma convert_image_bitmap:
  assumes hp: "holds_pixels img" and g: "grant h (size_t (sint (img_data_size img)))"
  shows "\<exists>res h' a out. convert_image h result img = Inr (res, h') \<and> data res = Ptr a \<and>
           block h a = None \<and> block h' a = Some out \<and>
           width res = uint (img_width img) \<and> height res = uint (img_height img) \<and>
           (\<forall>i < unat (img_width img) * unat (img_height img). reversed_at out (img_data img) i)"
proof -
  from convert_image_returns [OF hp] obtain res h'
    where c: "convert_image h result img = Inr (res, h')" by blast
  from c g have p: "data res = Ptr (fresh (blocks h))"
    by (auto simp: convert_image_def malloc_def Let_def split: if_splits sum.splits)
  from convert_image_fields [OF c]
  have f: "width res = uint (img_width img)" "height res = uint (img_height img)" by simp_all
  from convert_image_pixels [OF c p] obtain out
    where o: "block h' (fresh (blocks h)) = Some out" "block h (fresh (blocks h)) = None"
      and r: "\<forall>i < nat (width res * height res). reversed_at out (img_data img) i"
    by blast
  from r have "\<forall>i < unat (img_width img) * unat (img_height img). reversed_at out (img_data img) i"
    by (simp only: f pixel_count_nat)
  with c p o f show ?thesis by blast
qed

lemma convert_image_format:
  "convert_image h (result::ThumbnailResult) img = Inr (res, h') \<Longrightarrow> format res = format result"
  by (cases "grant h (size_t (sint (img_data_size img)))")
     (auto simp: convert_image_def malloc_def Let_def split: if_splits sum.splits)

subsection \<open>The copy of an embedded thumbnail\<close>

lemma copy_thumb_fields:
  "copy_thumb h result t = Inr (res, h') \<Longrightarrow>
     size' res = sint (img_data_size t) \<and>
     format res = (if img_type t = LIBRAW_IMAGE_JPEG then 0
                   else if img_type t = LIBRAW_IMAGE_BITMAP then 1 else format result) \<and>
     width res = (if img_type t \<noteq> LIBRAW_IMAGE_JPEG \<and> img_type t = LIBRAW_IMAGE_BITMAP
                  then uint (img_width t) else width result) \<and>
     height res = (if img_type t \<noteq> LIBRAW_IMAGE_JPEG \<and> img_type t = LIBRAW_IMAGE_BITMAP
                   then uint (img_height t) else height result)"
  by (cases "grant h (size_t (sint (img_data_size t)))")
     (auto simp: copy_thumb_def malloc_def Let_def split: if_splits sum.splits)

lemma copy_thumb_refused:
  "\<not> grant h (size_t (sint (img_data_size t))) \<Longrightarrow>
   \<exists>res. copy_thumb h result t = Inr (res, h) \<and> data res = nullptr"
  by (simp add: copy_thumb_def malloc_def Let_def)

lemma copy_thumb_granted:
  assumes p: "payload_ok t" and g: "grant h (length (img_data t))"
  shows "\<exists>res h'. copy_thumb h result t = Inr (res, h') \<and> data res = Ptr (fresh (blocks h)) \<and>
           block h (fresh (blocks h)) = None \<and> block h' (fresh (blocks h)) = Some (img_data t)"
proof -
  let ?n = "length (img_data t)"
  let ?a = "fresh (blocks h)"
  let ?h1 = "h\<lparr>blocks := (?a, map (junk h) [0..<?n]) # blocks h\<rparr>"
  have n: "size_t (sint (img_data_size t)) = ?n" by (rule payload_size(2) [OF p])
  have m: "memcpy ?h1 ?a (img_data t) ?n = Inr (store ?h1 ?a (img_data t))"
    by (simp add: memcpy_def block_def)
  show ?thesis
    using g by (simp add: copy_thumb_def malloc_def Let_def n m block_store block_fresh)
qed

lemma copy_thumb_defined:
  assumes p: "payload_ok t"
  shows "\<exists>res h'. copy_thumb h result t = Inr (res, h')"
proof (cases "grant h (length (img_data t))")
  case True
  from copy_thumb_granted [OF p True] show ?thesis by blast
next
  case False
  then have "\<not> grant h (size_t (sint (img_data_size t)))"
    by (simp add: payload_size(2) [OF p])
  from copy_thumb_refused [OF this] show ?thesis by blast
qed

subsection \<open>The decode operations, path by path\<close>

lemmas wrapper_defs = get_thumbnail_def get_thumbnail_from_buffer_def get_thumbnail_win_def
  get_preview_def get_preview_from_buffer_def get_preview_win_def process_thumbnail_def
  process_preview_def fallback_def open_input_def unpack_thumb_def dcraw_make_mem_thumb_def
  unpack_def dcraw_process_def dcraw_make_mem_image_def dcraw_clear_mem_def recycle_def
  destructor_def called_def LibRaw_new_def fallback_params_def preview_params_def
  embedded_thumb_def rendered_def Let_def

lemma thumbnail_open_fails:
  "open_rc C src (default_params C) \<noteq> LIBRAW_SUCCESS \<Longrightarrow>
   decode_thumbnail C h src =
     Inr (\<lparr>data = nullptr, size' = 0, width = 0, height = 0, format = 0\<rparr>, h,
          \<lparr>imgdata_params = default_params C, opened = None, calls = [Open, Destructor]\<rparr>)"
  by (cases src) (simp_all add: wrapper_defs)

lemma thumbnail_embedded:
  "open_rc C src (default_params C) = LIBRAW_SUCCESS \<Longrightarrow> embedded_thumb C src = Some t \<Longrightarrow>
   copy_thumb h \<lparr>data = nullptr, size' = 0, width = 0, height = 0, format = 0\<rparr> t = Inr (res, h') \<Longrightarrow>
   decode_thumbnail C h src =
     Inr (res, h', \<lparr>imgdata_params = default_params C, opened = None,
            calls = [Open, Unpack_thumb, Dcraw_make_mem_thumb, Dcraw_clear_mem, Recycle, Destructor]\<rparr>)"
  by (cases src) (simp_all add: wrapper_defs split: if_splits)

lemma thumbnail_fallback:
  "open_rc C src (default_params C) = LIBRAW_SUCCESS \<Longrightarrow> embedded_thumb C src = None \<Longrightarrow>
   rendered C src (fallback_params C) = Some img \<Longrightarrow>
   convert_image h \<lparr>data = nullptr, size' = 0, width = 0, height = 0, format = 1\<rparr> img = Inr (res, h') \<Longrightarrow>
   \<exists>rp. decode_thumbnail C h src = Inr (res, h', rp) \<and> imgdata_params rp = fallback_params C \<and>
        Unpack \<in> set (calls rp)"
  by (cases src) (auto simp: wrapper_defs split: if_splits)

lemma thumbnail_fallback_none:
  "open_rc C src (default_params C) = LIBRAW_SUCCESS \<Longrightarrow> embedded_thumb C src = None \<Longrightarrow>
   rendered C src (fallback_params C) = None \<Longrightarrow>
   \<exists>rp. decode_thumbnail C h src =
          Inr (\<lparr>data = nullptr, size' = 0, width = 0, height = 0, format = 0\<rparr>, h, rp) \<and>
        imgdata_params rp = fallback_params C \<and> Unpack \<in> set (calls rp)"
  by (cases src) (auto simp: wrapper_defs split: if_splits)

lemma thumbnail_fallback_inv:
  "decode_thumbnail C h src = Inr (res, h', rp) \<Longrightarrow> embedded_thumb C src = None \<Longrightarrow>
   data res = Ptr a \<Longrightarrow>
   \<exists>img. mem_image C (Some src) (fallback_params C) = Some img \<and>
     convert_image h \<lparr>data = nullptr, size' = 0, width = 0, height = 0, format = 1\<rparr> img = Inr (res, h')"
  by (cases src)
     (auto simp: wrapper_defs split: if_splits option.splits sum.splits prod.splits)

lemma preview_open_fails:
  "open_rc C src (preview_open_params C src hs) \<noteq> LIBRAW_SUCCESS \<Longrightarrow>
   decode_preview C h src hs =
     Inr (\<lparr>data = nullptr, size' = 0, width = 0, height = 0\<rparr>, h,
          \<lparr>imgdata_params = preview_open_params C src hs, opened = None, calls = [Open, Destructor]\<rparr>)"
  by (cases src) (simp_all add: wrapper_defs)

lemma preview_rendered:
  "open_rc C src (preview_open_params C src hs) = LIBRAW_SUCCESS \<Longrightarrow>
   rendered C src (preview_params C hs) = Some img \<Longrightarrow>
   convert_image h \<lparr>data = nullptr, size' = 0, width = 0, height = 0\<rparr> img = Inr (res, h') \<Longrightarrow>
   decode_preview C h src hs =
     Inr (res, h', \<lparr>imgdata_params = preview_params C hs, opened = None,
            calls = [Open, Unpack, Dcraw_process, Dcraw_make_mem_image, Dcraw_clear_mem,
                     Recycle, Destructor]\<rparr>)"
  by (cases src) (auto simp: wrapper_defs split: if_splits)

lemma preview_none:
  "open_rc C src (preview_open_params C src hs) = LIBRAW_SUCCESS \<Longrightarrow>
   rendered C src (preview_params C hs) = None \<Longrightarrow>
   \<exists>rp. decode_preview C h src hs =
          Inr (\<lparr>data = nullptr, size' = 0, width = 0, height = 0\<rparr>, h, rp) \<and>
        set (calls rp) \<subseteq> {Open, Unpack, Dcraw_process, Dcraw_make_mem_image, Recycle, Destructor}"
  by (cases src) (auto simp: wrapper_defs split: if_splits)

lemma preview_inv:
  "decode_preview C h src hs = Inr (res, h', rp) \<Longrightarrow>
   (res = \<lparr>data = nullptr, size' = 0, width = 0, height = 0\<rparr> \<and> h' = h \<and>
      (open_rc C src (preview_open_params C src hs) \<noteq> LIBRAW_SUCCESS \<or>
       rendered C src (preview_params C hs) = None)) \<or>
   (\<exists>img. open_rc C src (preview_open_params C src hs) = LIBRAW_SUCCESS \<and>
      rendered C src (preview_params C hs) = Some img \<and>
      mem_image C (Some src) (preview_params C hs) = Some img \<and>
      convert_image h \<lparr>data = nullptr, size' = 0, width = 0, height = 0\<rparr> img = Inr (res, h'))"
  by (cases src)
     (auto simp: wrapper_defs split: if_splits option.splits sum.splits prod.splits)

lemma image_types_differ: "LIBRAW_IMAGE_JPEG \<noteq> LIBRAW_IMAGE_BITMAP"
  by (simp add: LIBRAW_IMAGE_JPEG_def LIBRAW_IMAGE_BITMAP_def)



lemma thumbnail_fallback_params:
  "decode_thumbnail C h src = Inr (res, h', rp) \<Longrightarrow>
   open_rc C src (default_params C) = LIBRAW_SUCCESS \<Longrightarrow> embedded_thumb C src = None \<Longrightarrow>
   imgdata_params rp = fallback_params C \<and> Unpack \<in> set (calls rp)"
  by (cases src)
     (auto simp: wrapper_defs split: if_splits option.splits sum.splits prod.splits)



subsection \<open>Concrete runs\<close>

lemmas run_defs = wrapper_defs convert_image_def copy_thumb_def malloc_def fresh_def size_t_def
  swap_channels_def memcpy_def block_def store_def swap_loop.simps INT_MAX_def LIBRAW_SUCCESS_def
  LIBRAW_IMAGE_JPEG_def LIBRAW_IMAGE_BITMAP_def

lemma run_preview_half:
  "decode_preview (scripted True None both_sizes) roomy (File ''a.dng'') 1 =
     Inr (\<lparr>data = Ptr 1, size' = 6, width = 2, height = 1\<rparr>,
          roomy\<lparr>blocks := [(1, [30, 20, 10, 60, 50, 40])]\<rparr>,
          \<lparr>imgdata_params = \<lparr>use_camera_wb = 1, half_size = 1, output_bps = 8, output_color = 1\<rparr>,
             opened = None,
             calls = [Open, Unpack, Dcraw_process, Dcraw_make_mem_image, Dcraw_clear_mem,
                      Recycle, Destructor]\<rparr>)"
  by (simp add: run_defs scripted_def roomy_def both_sizes_def half2x1_def upt_rec)

lemma run_thumbnail_jpeg:
  "decode_thumbnail (scripted True (Some jpeg3) both_sizes) roomy (File ''a.dng'') =
     Inr (\<lparr>data = Ptr 1, size' = 3, width = 0, height = 0, format = 0\<rparr>,
          roomy\<lparr>blocks := [(1, [255, 216, 255])]\<rparr>,
          \<lparr>imgdata_params = \<lparr>use_camera_wb = 0, half_size = 0, output_bps = 8, output_color = 1\<rparr>,
             opened = None,
             calls = [Open, Unpack_thumb, Dcraw_make_mem_thumb, Dcraw_clear_mem, Recycle,
                      Destructor]\<rparr>)"
  by (simp add: run_defs scripted_def roomy_def jpeg3_def upt_rec)

lemma run_preview_closed:
  "decode_preview (scripted False None both_sizes) roomy (File ''a.dng'') 1 =
     Inr (\<lparr>data = nullptr, size' = 0, width = 0, height = 0\<rparr>, roomy,
          \<lparr>imgdata_params = \<lparr>use_camera_wb = 0, half_size = 0, output_bps = 8, output_color = 1\<rparr>,
             opened = None, calls = [Open, Destructor]\<rparr>)"
  by (simp add: run_defs scripted_def roomy_def)

lemma run_preview_half_again:
  "decode_preview (scripted True None both_sizes)
       (roomy\<lparr>blocks := [(1, [30, 20, 10, 60, 50, 40])]\<rparr>) (File ''a.dng'') 1 =
     Inr (\<lparr>data = Ptr 2, size' = 6, width = 2, height = 1\<rparr>,
          roomy\<lparr>blocks := [(2, [30, 20, 10, 60, 50, 40]), (1, [30, 20, 10, 60, 50, 40])]\<rparr>,
          \<lparr>imgdata_params = \<lparr>use_camera_wb = 1, half_size = 1, output_bps = 8, output_color = 1\<rparr>,
             opened = None,
             calls = [Open, Unpack, Dcraw_process, Dcraw_make_mem_image, Dcraw_clear_mem,
                      Recycle, Destructor]\<rparr>)"
  by (simp add: run_defs scripted_def roomy_def both_sizes_def half2x1_def upt_rec)

lemma run_thumbnail_nothing:
  "decode_thumbnail (scripted True None renders_nothing) roomy (File ''a.dng'') =
     Inr (\<lparr>data = nullptr, size' = 0, width = 0, height = 0, format = 0\<rparr>, roomy,
          \<lparr>imgdata_params = \<lparr>use_camera_wb = 1, half_size = 1, output_bps = 8, output_color = 1\<rparr>,
             opened = None,
             calls = [Open, Unpack_thumb, Unpack, Dcraw_process, Dcraw_make_mem_image, Recycle,
                      Destructor]\<rparr>)"
  by (simp add: run_defs scripted_def roomy_def renders_nothing_def)




lemma run_preview_mono:
  "decode_preview (scripted True None renders_mono) roomy (File ''a.dng'') 1 = Inl Out_of_bounds"
  by (simp add: run_defs scripted_def roomy_def renders_mono_def mono2x1_def upt_rec)

lemma run_thumbnail_mono:
  "decode_thumbnail (scripted True None renders_mono) roomy (File ''a.dng'') = Inl Out_of_bounds"
  by (simp add: run_defs scripted_def roomy_def renders_mono_def mono2x1_def upt_rec)

lemma huge_jpeg_fields:
  "img_type huge_jpeg = 1" "img_height huge_jpeg = 0" "img_width huge_jpeg = 0"
  "img_data_size huge_jpeg = 2147483651" "img_data huge_jpeg = big_payload"
  by (simp_all only: huge_jpeg_def libraw_processed_image_t.simps)

lemma run_thumbnail_huge:
  "decode_thumbnail (scripted True (Some huge_jpeg) both_sizes) modest (File ''a.dng'') =
     Inr (\<lparr>data = nullptr, size' = - 2147483645, width = 0, height = 0, format = 0\<rparr>, modest,
          \<lparr>imgdata_params = \<lparr>use_camera_wb = 0, half_size = 0, output_bps = 8, output_color = 1\<rparr>,
             opened = None,
             calls = [Open, Unpack_thumb, Dcraw_make_mem_thumb, Dcraw_clear_mem, Recycle,
                      Destructor]\<rparr>)"
  by (simp add: run_defs scripted_def modest_def huge_jpeg_fields)

lemma run_thumbnail_padded:
  "decode_thumbnail (scripted True None renders_padded) roomy (File ''a.dng'') =
     Inr (\<lparr>data = Ptr 1, size' = 8, width = 2, height = 1, format = 1\<rparr>,
          roomy\<lparr>blocks := [(1, [30, 20, 10, 60, 50, 40, 0, 0])]\<rparr>,
          \<lparr>imgdata_params = \<lparr>use_camera_wb = 1, half_size = 1, output_bps = 8, output_color = 1\<rparr>,
             opened = None,
             calls = [Open, Unpack_thumb, Unpack, Dcraw_process, Dcraw_make_mem_image,
                      Dcraw_clear_mem, Recycle, Destructor]\<rparr>)"
  by (simp add: run_defs scripted_def roomy_def renders_padded_def padded2x1_def upt_rec)



lemma run_preview_vast:
  "decode_preview (scripted True None renders_vast) roomy (File ''a.dng'') 1 = Inl Signed_overflow"
  by (simp add: run_defs scripted_def roomy_def renders_vast_def vast_def upt_rec)

section \<open>The claims\<close>

subsection \<open>free_buffer\<close>

text \<open>C7. \<open>free_buffer\<close> on a null pointer returns without touching the heap: nothing is
  deallocated and nothing faults.\<close>

theorem free_buffer_null: "free_buffer h nullptr = Inr h"
  by (simp add: free_buffer_def)

subsection \<open>Channel reversal\<close>

text \<open>
  C1, as the code has it. The wrapper allocates \<open>data_size\<close> bytes and converts
  \<open>width \<times> height\<close> pixels of 3 bytes; nothing in it compares the two. When the
  rendered image holds its pixels (\<open>holds_pixels\<close>) and \<open>malloc\<close> serves the request,
  \<open>get_preview\<close>, and \<open>get_thumbnail\<close> on its fallback path, return a buffer that was not
  live before, and for every pixel index \<open>i < width \<times> height\<close> the three bytes of the
  buffer at offset \<open>3i\<close> are the codec's bytes at offsets \<open>3i + 2\<close>, \<open>3i + 1\<close>,
  \<open>3i\<close>. Moreover every buffer either operation returns is reversed in this way. This
  holds on both platforms, for paths and buffers.
\<close>

theorem channel_reversal:
  "(open_rc C src (preview_open_params C src hs) = LIBRAW_SUCCESS \<and>
    rendered C src (preview_params C hs) = Some img \<and> holds_pixels img \<and>
    grant h (size_t (sint (img_data_size img))) \<longrightarrow>
      (\<exists>res h' rp a out. decode_preview C h src hs = Inr (res, h', rp) \<and>
         data res = Ptr a \<and> block h a = None \<and> block h' a = Some out \<and>
         width res = uint (img_width img) \<and> height res = uint (img_height img) \<and>
         (\<forall>i < unat (img_width img) * unat (img_height img).
            reversed_at out (img_data img) i))) \<and>
   (open_rc C src (default_params C) = LIBRAW_SUCCESS \<and> embedded_thumb C src = None \<and>
    rendered C src (fallback_params C) = Some timg \<and> holds_pixels timg \<and>
    grant h (size_t (sint (img_data_size timg))) \<longrightarrow>
      (\<exists>res h' rp a out. decode_thumbnail C h src = Inr (res, h', rp) \<and>
         data res = Ptr a \<and> block h a = None \<and> block h' a = Some out \<and>
         width res = uint (img_width timg) \<and> height res = uint (img_height timg) \<and>
         (\<forall>i < unat (img_width timg) * unat (img_height timg).
            reversed_at out (img_data timg) i))) \<and>
   (decode_preview C h src hs = Inr (pres, ph', prp) \<and> data pres = Ptr pa \<longrightarrow>
      (\<exists>img out. mem_image C (Some src) (preview_params C hs) = Some img \<and>
         block ph' pa = Some out \<and>
         3 * nat (width pres * height pres) \<le> length out \<and>
         3 * nat (width pres * height pres) \<le> length (img_data img) \<and>
         (\<forall>i < nat (width pres * height pres). reversed_at out (img_data img) i))) \<and>
   (decode_thumbnail C h src = Inr (tres, th', trp) \<and> data tres = Ptr ta \<and>
    embedded_thumb C src = None \<longrightarrow>
      (\<exists>img out. mem_image C (Some src) (fallback_params C) = Some img \<and>
         block th' ta = Some out \<and>
         3 * nat (width tres * height tres) \<le> length out \<and>
         3 * nat (width tres * height tres) \<le> length (img_data img) \<and>
         (\<forall>i < nat (width tres * height tres). reversed_at out (img_data img) i)))"
proof (intro conjI impI)
  assume a: "open_rc C src (preview_open_params C src hs) = LIBRAW_SUCCESS \<and>
    rendered C src (preview_params C hs) = Some img \<and> holds_pixels img \<and>
    grant h (size_t (sint (img_data_size img)))"
  let ?zero = "\<lparr>data = nullptr, size' = 0, width = 0, height = 0\<rparr>"
  from a convert_image_bitmap [of img h ?zero] obtain res h' p out
    where c: "convert_image h ?zero img = Inr (res, h')"
      and r: "data res = Ptr p" "block h p = None" "block h' p = Some out"
        "width res = uint (img_width img)" "height res = uint (img_height img)"
        "\<forall>i < unat (img_width img) * unat (img_height img). reversed_at out (img_data img) i"
    by blast
  from a preview_rendered [OF _ _ c, of C src hs] obtain rp
    where "decode_preview C h src hs = Inr (res, h', rp)" by blast
  with r show "\<exists>res h' rp a out. decode_preview C h src hs = Inr (res, h', rp) \<and>
         data res = Ptr a \<and> block h a = None \<and> block h' a = Some out \<and>
         width res = uint (img_width img) \<and> height res = uint (img_height img) \<and>
         (\<forall>i < unat (img_width img) * unat (img_height img).
            reversed_at out (img_data img) i)"
    by blast
next
  assume a: "open_rc C src (default_params C) = LIBRAW_SUCCESS \<and> embedded_thumb C src = None \<and>
    rendered C src (fallback_params C) = Some timg \<and> holds_pixels timg \<and>
    grant h (size_t (sint (img_data_size timg)))"
  let ?one = "\<lparr>data = nullptr, size' = 0, width = 0, height = 0, format = 1\<rparr>"
  from a convert_image_bitmap [of timg h ?one] obtain res h' p out
    where c: "convert_image h ?one timg = Inr (res, h')"
      and r: "data res = Ptr p" "block h p = None" "block h' p = Some out"
        "width res = uint (img_width timg)" "height res = uint (img_height timg)"
        "\<forall>i < unat (img_width timg) * unat (img_height timg). reversed_at out (img_data timg) i"
    by blast
  from a thumbnail_fallback [OF _ _ _ c, of C src] obtain rp
    where "decode_thumbnail C h src = Inr (res, h', rp)" by blast
  with r show "\<exists>res h' rp a out. decode_thumbnail C h src = Inr (res, h', rp) \<and>
         data res = Ptr a \<and> block h a = None \<and> block h' a = Some out \<and>
         width res = uint (img_width timg) \<and> height res = uint (img_height timg) \<and>
         (\<forall>i < unat (img_width timg) * unat (img_height timg).
            reversed_at out (img_data timg) i)"
    by blast
next
  assume "decode_preview C h src hs = Inr (pres, ph', prp) \<and> data pres = Ptr pa"
  then have d: "decode_preview C h src hs = Inr (pres, ph', prp)" and p: "data pres = Ptr pa"
    by simp_all
  from preview_inv [OF d] p obtain img
    where m: "mem_image C (Some src) (preview_params C hs) = Some img"
      and c: "convert_image h \<lparr>data = nullptr, size' = 0, width = 0, height = 0\<rparr> img = Inr (pres, ph')"
    by auto
  from convert_image_pixels [OF c p] m
  show "\<exists>img out. mem_image C (Some src) (preview_params C hs) = Some img \<and>
         block ph' pa = Some out \<and>
         3 * nat (width pres * height pres) \<le> length out \<and>
         3 * nat (width pres * height pres) \<le> length (img_data img) \<and>
         (\<forall>i < nat (width pres * height pres). reversed_at out (img_data img) i)"
    by blast
next
  assume "decode_thumbnail C h src = Inr (tres, th', trp) \<and> data tres = Ptr ta \<and>
    embedded_thumb C src = None"
  then have d: "decode_thumbnail C h src = Inr (tres, th', trp)" and p: "data tres = Ptr ta"
    and e: "embedded_thumb C src = None"
    by simp_all
  from thumbnail_fallback_inv [OF d e p] obtain img
    where m: "mem_image C (Some src) (fallback_params C) = Some img"
      and c: "convert_image h \<lparr>data = nullptr, size' = 0, width = 0, height = 0, format = 1\<rparr> img
                = Inr (tres, th')"
    by auto
  from convert_image_pixels [OF c p] m
  show "\<exists>img out. mem_image C (Some src) (fallback_params C) = Some img \<and>
         block th' ta = Some out \<and>
         3 * nat (width tres * height tres) \<le> length out \<and>
         3 * nat (width tres * height tres) \<le> length (img_data img) \<and>
         (\<forall>i < nat (width tres * height tres). reversed_at out (img_data img) i)"
    by blast
qed

theorem channel_reversal_witness:
  "open_rc (scripted True None both_sizes) (File ''a.dng'')
     (preview_open_params (scripted True None both_sizes) (File ''a.dng'') 1) = LIBRAW_SUCCESS \<and>
   rendered (scripted True None both_sizes) (File ''a.dng'')
     (preview_params (scripted True None both_sizes) 1) = Some half2x1 \<and>
   holds_pixels half2x1 \<and>
   grant roomy (size_t (sint (img_data_size half2x1))) \<and>
   (\<exists>res h' rp a out.
      decode_preview (scripted True None both_sizes) roomy (File ''a.dng'') 1 = Inr (res, h', rp) \<and>
      data res = Ptr a \<and> block h' a = Some out \<and> width res = 2 \<and> height res = 1 \<and>
      (\<forall>i<2. reversed_at out [10, 20, 30, 40, 50, 60] i)) \<and>
   embedded_thumb (scripted True None both_sizes) (WFile [97, 46, 100, 110, 103]) = None \<and>
   rendered (scripted True None both_sizes) (WFile [97, 46, 100, 110, 103])
     (fallback_params (scripted True None both_sizes)) = Some half2x1 \<and>
   (\<exists>res h' rp a out.
      decode_thumbnail (scripted True None both_sizes) roomy (WFile [97, 46, 100, 110, 103]) =
        Inr (res, h', rp) \<and>
      data res = Ptr a \<and> block h' a = Some out \<and> width res = 2 \<and> height res = 1 \<and>
      (\<forall>i<2. reversed_at out [10, 20, 30, 40, 50, 60] i)) \<and>
   decode_preview (scripted True None both_sizes) roomy (File ''a.dng'') 1 =
     Inr (\<lparr>data = Ptr 1, size' = 6, width = 2, height = 1\<rparr>,
          roomy\<lparr>blocks := [(1, [30, 20, 10, 60, 50, 40])]\<rparr>,
          \<lparr>imgdata_params = \<lparr>use_camera_wb = 1, half_size = 1, output_bps = 8, output_color = 1\<rparr>,
             opened = None,
             calls = [Open, Unpack, Dcraw_process, Dcraw_make_mem_image, Dcraw_clear_mem,
                      Recycle, Destructor]\<rparr>) \<and>
   (\<exists>out. block (roomy\<lparr>blocks := [(1, [30, 20, 10, 60, 50, 40])]\<rparr>) 1 = Some out \<and>
      6 \<le> length out \<and>
      reversed_at out [10, 20, 30, 40, 50, 60] 0 \<and> reversed_at out [10, 20, 30, 40, 50, 60] 1)"
proof -
  let ?C = "scripted True None both_sizes"
  let ?F = "File ''a.dng''"
  let ?W = "WFile [97, 46, 100, 110, 103]"
  let ?H = "roomy\<lparr>blocks := [(1, [30, 20, 10, 60, 50, 40])]\<rparr>"
  let ?R = "\<lparr>data = Ptr 1, size' = 6, width = 2, height = 1\<rparr>"
  let ?RP = "\<lparr>imgdata_params = \<lparr>use_camera_wb = 1, half_size = 1, output_bps = 8, output_color = 1\<rparr>,
             opened = None,
             calls = [Open, Unpack, Dcraw_process, Dcraw_make_mem_image, Dcraw_clear_mem,
                      Recycle, Destructor]\<rparr>"
  have o: "open_rc ?C ?F (preview_open_params ?C ?F 1) = LIBRAW_SUCCESS"
    and ow: "open_rc ?C ?W (default_params ?C) = LIBRAW_SUCCESS"
    by (simp_all add: scripted_def LIBRAW_SUCCESS_def)
  have r: "rendered ?C ?F (preview_params ?C 1) = Some half2x1"
    and rw: "rendered ?C ?W (fallback_params ?C) = Some half2x1"
    by (simp_all add: rendered_def preview_params_def fallback_params_def scripted_def
        both_sizes_def LIBRAW_SUCCESS_def)
  have e: "embedded_thumb ?C ?W = None"
    by (simp add: embedded_thumb_def scripted_def LIBRAW_SUCCESS_def)
  have hp: "holds_pixels half2x1"
    by (simp add: holds_pixels_def half2x1_def size_t_def INT_MAX_def)
  have g: "grant roomy (size_t (sint (img_data_size half2x1)))"
    by (simp add: roomy_def)
  have m: "mem_image ?C (Some ?F) (preview_params ?C 1) = Some half2x1"
    by (simp add: preview_params_def scripted_def both_sizes_def)
  have px: "unat (img_width half2x1) * unat (img_height half2x1) = 2"
    "uint (img_width half2x1) = 2" "uint (img_height half2x1) = 1"
    "img_data half2x1 = [10, 20, 30, 40, 50, 60]"
    by (simp_all add: half2x1_def)
  from channel_reversal [where C = ?C and src = ?F and hs = 1 and img = half2x1 and h = roomy,
      THEN conjunct1, rule_format, OF conjI [OF o conjI [OF r conjI [OF hp g]]]]
  have A: "\<exists>res h' rp a out. decode_preview ?C roomy ?F 1 = Inr (res, h', rp) \<and>
      data res = Ptr a \<and> block h' a = Some out \<and> width res = 2 \<and> height res = 1 \<and>
      (\<forall>i<2. reversed_at out [10, 20, 30, 40, 50, 60] i)"
    by (simp only: px) blast
  from channel_reversal [where C = ?C and src = ?W and timg = half2x1 and h = roomy,
      THEN conjunct2, THEN conjunct1, rule_format,
      OF conjI [OF ow conjI [OF e conjI [OF rw conjI [OF hp g]]]]]
  have B: "\<exists>res h' rp a out. decode_thumbnail ?C roomy ?W = Inr (res, h', rp) \<and>
      data res = Ptr a \<and> block h' a = Some out \<and> width res = 2 \<and> height res = 1 \<and>
      (\<forall>i<2. reversed_at out [10, 20, 30, 40, 50, 60] i)"
    by (simp only: px) blast
  have run: "decode_preview ?C roomy ?F 1 = Inr (?R, ?H, ?RP) \<and> data ?R = Ptr 1"
    using run_preview_half by simp
  from channel_reversal [where C = ?C and h = roomy and src = ?F and hs = 1 and pres = ?R
      and ph' = ?H and prp = ?RP and pa = 1,
      THEN conjunct2, THEN conjunct2, THEN conjunct1, rule_format, OF run]
  obtain img out where "mem_image ?C (Some ?F) (preview_params ?C 1) = Some img"
    and b: "block ?H 1 = Some out" "3 * nat (width ?R * height ?R) \<le> length out"
    and r': "\<forall>i < nat (width ?R * height ?R). reversed_at out (img_data img) i"
    by blast
  with m have "\<forall>i<2. reversed_at out (img_data half2x1) i"
    by simp
  then have "reversed_at out (img_data half2x1) 0" "reversed_at out (img_data half2x1) 1"
    by simp_all
  with b have D: "\<exists>out. block ?H 1 = Some out \<and> 6 \<le> length out \<and>
      reversed_at out [10, 20, 30, 40, 50, 60] 0 \<and> reversed_at out [10, 20, 30, 40, 50, 60] 1"
    by (simp add: half2x1_def)
  from o r hp g A e rw B D show ?thesis
    using run_preview_half by simp
qed

text \<open>
  The claim as stated holds whatever the image's size and content. Here the codec renders
  a 2 by 1 image with one byte for each pixel, \<open>data_size\<close> 2. The wrapper allocates 2
  bytes and its loop, bound for 6, reads and writes past both the image and the buffer in
  its first iteration: the call has no defined result, on the preview path and on the
  thumbnail's fallback path alike. And for an image of 65535 by 65535 the pixel count
  4294836225 does not fit the \<open>int total_pixels\<close>.
\<close>

theorem channel_reversal_counterexample:
  "rendered (scripted True None renders_mono) (File ''a.dng'')
     (preview_params (scripted True None renders_mono) 1) = Some mono2x1 \<and>
   rendered (scripted True None renders_mono) (File ''a.dng'')
     (fallback_params (scripted True None renders_mono)) = Some mono2x1 \<and>
   embedded_thumb (scripted True None renders_mono) (File ''a.dng'') = None \<and>
   length (img_data mono2x1) = unat (img_data_size mono2x1) \<and>
   unat (img_width mono2x1) * unat (img_height mono2x1) = 2 \<and>
   length (img_data mono2x1) = 2 \<and>
   grant roomy (size_t (sint (img_data_size mono2x1))) \<and>
   decode_preview (scripted True None renders_mono) roomy (File ''a.dng'') 1 = Inl Out_of_bounds \<and>
   decode_thumbnail (scripted True None renders_mono) roomy (File ''a.dng'') = Inl Out_of_bounds \<and>
   rendered (scripted True None renders_vast) (File ''a.dng'')
     (preview_params (scripted True None renders_vast) 1) = Some vast \<and>
   uint (img_width vast) * uint (img_height vast) = 4294836225 \<and>
   decode_preview (scripted True None renders_vast) roomy (File ''a.dng'') 1 = Inl Signed_overflow"
proof -
  let ?C = "scripted True None renders_mono"
  have "rendered ?C (File ''a.dng'') (preview_params ?C 1) = Some mono2x1"
    and "rendered ?C (File ''a.dng'') (fallback_params ?C) = Some mono2x1"
    by (simp_all add: rendered_def scripted_def renders_mono_def LIBRAW_SUCCESS_def)
  moreover have "embedded_thumb ?C (File ''a.dng'') = None"
    by (simp add: embedded_thumb_def scripted_def LIBRAW_SUCCESS_def)
  moreover have "length (img_data mono2x1) = unat (img_data_size mono2x1)"
    and "unat (img_width mono2x1) * unat (img_height mono2x1) = 2"
    and "length (img_data mono2x1) = 2"
    and "grant roomy (size_t (sint (img_data_size mono2x1)))"
    by (simp_all add: mono2x1_def roomy_def)
  moreover have "rendered (scripted True None renders_vast) (File ''a.dng'')
      (preview_params (scripted True None renders_vast) 1) = Some vast"
    by (simp add: rendered_def scripted_def renders_vast_def LIBRAW_SUCCESS_def)
  moreover have "uint (img_width vast) * uint (img_height vast) = 4294836225"
    by (simp add: vast_def)
  ultimately show ?thesis
    using run_preview_mono run_thumbnail_mono run_preview_vast by simp
qed

subsection \<open>The embedded thumbnail\<close>

text \<open>
  C3, as the code has it. The byte count is an \<open>int\<close> and receives the codec's
  \<open>unsigned data_size\<close>. When the source opens and the codec extracts an embedded
  thumbnail whose \<open>data_size\<close> bytes are there and whose size fits that \<open>int\<close>
  (\<open>payload_ok\<close>), \<open>get_thumbnail\<close> returns; the byte count is the codec's
  \<open>data_size\<close>; the format tag is 1 (RawBitmap) for a bitmap payload and 0 (Encoded)
  otherwise; width and height are the payload's for a bitmap and 0 otherwise; and when
  \<open>malloc\<close> serves the request, the buffer is a block that was not live before the call
  and holds the payload's bytes exactly as the codec gave them.
\<close>

theorem embedded_thumbnail_verbatim:
  assumes op: "open_rc C src (default_params C) = LIBRAW_SUCCESS"
    and em: "embedded_thumb C src = Some t"
    and ok: "payload_ok t"
  shows "\<exists>res h' rp. decode_thumbnail C h src = Inr (res, h', rp) \<and>
           size' res = uint (img_data_size t) \<and>
           size' res = int (length (img_data t)) \<and>
           format res = (if img_type t = LIBRAW_IMAGE_BITMAP then 1 else 0) \<and>
           width res = (if img_type t = LIBRAW_IMAGE_BITMAP then uint (img_width t) else 0) \<and>
           height res = (if img_type t = LIBRAW_IMAGE_BITMAP then uint (img_height t) else 0) \<and>
           (grant h (length (img_data t)) \<longrightarrow>
              (\<exists>a. data res = Ptr a \<and> block h a = None \<and> block h' a = Some (img_data t)))"
proof -
  let ?zero = "\<lparr>data = nullptr, size' = 0, width = 0, height = 0, format = 0\<rparr>"
  from copy_thumb_defined [OF ok] obtain res h'
    where c: "copy_thumb h ?zero t = Inr (res, h')" by blast
  have d: "decode_thumbnail C h src =
      Inr (res, h', \<lparr>imgdata_params = default_params C, opened = None,
            calls = [Open, Unpack_thumb, Dcraw_make_mem_thumb, Dcraw_clear_mem, Recycle, Destructor]\<rparr>)"
    by (rule thumbnail_embedded [OF op em c])
  from ok have sz: "sint (img_data_size t) = int (length (img_data t))"
    by (rule payload_size(1))
  from ok have u: "uint (img_data_size t) = int (length (img_data t))"
    by (simp only: payload_ok_def uint_nat)
  from copy_thumb_fields [OF c] image_types_differ
  have f: "size' res = int (length (img_data t))"
    "format res = (if img_type t = LIBRAW_IMAGE_BITMAP then 1 else 0)"
    "width res = (if img_type t = LIBRAW_IMAGE_BITMAP then uint (img_width t) else 0)"
    "height res = (if img_type t = LIBRAW_IMAGE_BITMAP then uint (img_height t) else 0)"
    by (auto simp: sz)
  have g: "grant h (length (img_data t)) \<longrightarrow>
      (\<exists>a. data res = Ptr a \<and> block h a = None \<and> block h' a = Some (img_data t))"
  proof
    assume "grant h (length (img_data t))"
    from copy_thumb_granted [OF ok this, of ?zero] c
    show "\<exists>a. data res = Ptr a \<and> block h a = None \<and> block h' a = Some (img_data t)"
      by auto
  qed
  from d f g u show ?thesis by auto
qed

theorem embedded_thumbnail_verbatim_witness:
  "open_rc (scripted True (Some jpeg3) both_sizes) (File ''a.dng'')
     (default_params (scripted True (Some jpeg3) both_sizes)) = LIBRAW_SUCCESS \<and>
   embedded_thumb (scripted True (Some jpeg3) both_sizes) (File ''a.dng'') = Some jpeg3 \<and>
   payload_ok jpeg3 \<and>
   (\<exists>res h' rp.
      decode_thumbnail (scripted True (Some jpeg3) both_sizes) roomy (File ''a.dng'') = Inr (res, h', rp) \<and>
      size' res = 3 \<and> format res = 0 \<and> width res = 0 \<and> height res = 0 \<and>
      (\<exists>a. data res = Ptr a \<and> block roomy a = None \<and> block h' a = Some [255, 216, 255])) \<and>
   embedded_thumb (scripted True (Some bitmap1x1) both_sizes) (Buffer [1, 2] 2) = Some bitmap1x1 \<and>
   payload_ok bitmap1x1 \<and>
   (\<exists>res h' rp.
      decode_thumbnail (scripted True (Some bitmap1x1) both_sizes) roomy (Buffer [1, 2] 2) = Inr (res, h', rp) \<and>
      size' res = 3 \<and> format res = 1 \<and> width res = 1 \<and> height res = 1 \<and>
      (\<exists>a. data res = Ptr a \<and> block h' a = Some [7, 8, 9]))"
proof -
  let ?J = "scripted True (Some jpeg3) both_sizes"
  let ?B = "scripted True (Some bitmap1x1) both_sizes"
  have o: "open_rc ?J (File ''a.dng'') (default_params ?J) = LIBRAW_SUCCESS"
    by (simp add: scripted_def LIBRAW_SUCCESS_def)
  have e: "embedded_thumb ?J (File ''a.dng'') = Some jpeg3"
    by (simp add: embedded_thumb_def scripted_def LIBRAW_SUCCESS_def)
  have p: "payload_ok jpeg3"
    by (simp add: payload_ok_def jpeg3_def INT_MAX_def)
  have ob: "open_rc ?B (Buffer [1, 2] 2) (default_params ?B) = LIBRAW_SUCCESS"
    by (simp add: scripted_def LIBRAW_SUCCESS_def)
  have eb: "embedded_thumb ?B (Buffer [1, 2] 2) = Some bitmap1x1"
    by (simp add: embedded_thumb_def scripted_def LIBRAW_SUCCESS_def)
  have pb: "payload_ok bitmap1x1"
    by (simp add: payload_ok_def bitmap1x1_def INT_MAX_def)
  from embedded_thumbnail_verbatim [OF o e p, of roomy]
  have A: "\<exists>res h' rp.
      decode_thumbnail ?J roomy (File ''a.dng'') = Inr (res, h', rp) \<and>
      size' res = 3 \<and> format res = 0 \<and> width res = 0 \<and> height res = 0 \<and>
      (\<exists>a. data res = Ptr a \<and> block roomy a = None \<and> block h' a = Some [255, 216, 255])"
    by (simp add: jpeg3_def roomy_def LIBRAW_IMAGE_BITMAP_def)
  from embedded_thumbnail_verbatim [OF ob eb pb, of roomy]
  have B: "\<exists>res h' rp.
      decode_thumbnail ?B roomy (Buffer [1, 2] 2) = Inr (res, h', rp) \<and>
      size' res = 3 \<and> format res = 1 \<and> width res = 1 \<and> height res = 1 \<and>
      (\<exists>a. data res = Ptr a \<and> block h' a = Some [7, 8, 9])"
    by (simp add: bitmap1x1_def roomy_def LIBRAW_IMAGE_BITMAP_def) blast
  from o e p eb pb A B show ?thesis by blast
qed

text \<open>
  The claim as stated holds for every extracted thumbnail. Here the payload has
  2147483651 bytes, 4 more than the largest \<open>int\<close>: the byte count comes back as
  -2147483645, the request that reaches \<open>malloc\<close> is nearly \<open>2 ^ 64\<close> bytes, which
  an allocator with \<open>2 ^ 48\<close> bytes to give refuses, and nothing is copied.
\<close>

theorem embedded_thumbnail_counterexample:
  "embedded_thumb (scripted True (Some huge_jpeg) both_sizes) (File ''a.dng'') = Some huge_jpeg \<and>
   length (img_data huge_jpeg) = unat (img_data_size huge_jpeg) \<and>
   uint (img_data_size huge_jpeg) = 2147483651 \<and>
   result_of (decode_thumbnail (scripted True (Some huge_jpeg) both_sizes) modest (File ''a.dng'')) =
     Some \<lparr>data = nullptr, size' = - 2147483645, width = 0, height = 0, format = 0\<rparr> \<and>
   map_option size'
     (result_of (decode_thumbnail (scripted True (Some huge_jpeg) both_sizes) modest (File ''a.dng''))) \<noteq>
     Some (uint (img_data_size huge_jpeg))"
proof -
  let ?C = "scripted True (Some huge_jpeg) both_sizes"
  have "embedded_thumb ?C (File ''a.dng'') = Some huge_jpeg"
    by (simp add: embedded_thumb_def scripted_def LIBRAW_SUCCESS_def)
  moreover have "length (img_data huge_jpeg) = unat (img_data_size huge_jpeg)"
    by (simp only: huge_jpeg_fields big_payload_def length_replicate) simp
  moreover have "uint (img_data_size huge_jpeg) = 2147483651"
    by (simp add: huge_jpeg_fields)
  moreover have "result_of (decode_thumbnail ?C modest (File ''a.dng'')) =
      Some \<lparr>data = nullptr, size' = - 2147483645, width = 0, height = 0, format = 0\<rparr>"
    by (simp only: run_thumbnail_huge result_of_def sum.case prod.case)
  ultimately show ?thesis by simp
qed



subsection \<open>Allocation failure\<close>



subsection \<open>Failure\<close>

text \<open>
  C4. When the open call fails, every decode operation returns the all-zero descriptor and
  the heap it was given: no buffer is allocated. In \<open>get_preview\<close>, when the source
  opens and then unpack, render or materialise fails, the result is again the all-zero
  descriptor on an unchanged heap, and the processor's calls are among open, unpack,
  render, materialise, recycle and the destructor: nothing else is tried.
\<close>

theorem failure_returns_null:
  "(open_rc C src (default_params C) \<noteq> LIBRAW_SUCCESS \<longrightarrow>
      (\<exists>rp. decode_thumbnail C h src =
         Inr (\<lparr>data = nullptr, size' = 0, width = 0, height = 0, format = 0\<rparr>, h, rp))) \<and>
   (open_rc C src (preview_open_params C src hs) \<noteq> LIBRAW_SUCCESS \<longrightarrow>
      (\<exists>rp. decode_preview C h src hs =
         Inr (\<lparr>data = nullptr, size' = 0, width = 0, height = 0\<rparr>, h, rp))) \<and>
   (open_rc C src (preview_open_params C src hs) = LIBRAW_SUCCESS \<and>
    (unpack_rc C (Some src) (preview_params C hs) \<noteq> LIBRAW_SUCCESS \<or>
     process_rc C (Some src) (preview_params C hs) \<noteq> LIBRAW_SUCCESS \<or>
     mem_image C (Some src) (preview_params C hs) = None) \<longrightarrow>
      (\<exists>rp. decode_preview C h src hs =
         Inr (\<lparr>data = nullptr, size' = 0, width = 0, height = 0\<rparr>, h, rp) \<and>
         set (calls rp) \<subseteq> {Open, Unpack, Dcraw_process, Dcraw_make_mem_image, Recycle, Destructor}))"
proof (intro conjI impI)
  assume "open_rc C src (default_params C) \<noteq> LIBRAW_SUCCESS"
  then show "\<exists>rp. decode_thumbnail C h src =
         Inr (\<lparr>data = nullptr, size' = 0, width = 0, height = 0, format = 0\<rparr>, h, rp)"
    by (simp add: thumbnail_open_fails)
next
  assume "open_rc C src (preview_open_params C src hs) \<noteq> LIBRAW_SUCCESS"
  then show "\<exists>rp. decode_preview C h src hs =
         Inr (\<lparr>data = nullptr, size' = 0, width = 0, height = 0\<rparr>, h, rp)"
    by (simp add: preview_open_fails)
next
  assume a: "open_rc C src (preview_open_params C src hs) = LIBRAW_SUCCESS \<and>
    (unpack_rc C (Some src) (preview_params C hs) \<noteq> LIBRAW_SUCCESS \<or>
     process_rc C (Some src) (preview_params C hs) \<noteq> LIBRAW_SUCCESS \<or>
     mem_image C (Some src) (preview_params C hs) = None)"
  then have "rendered C src (preview_params C hs) = None"
    by (auto simp: rendered_def)
  with a show "\<exists>rp. decode_preview C h src hs =
         Inr (\<lparr>data = nullptr, size' = 0, width = 0, height = 0\<rparr>, h, rp) \<and>
         set (calls rp) \<subseteq> {Open, Unpack, Dcraw_process, Dcraw_make_mem_image, Recycle, Destructor}"
    by (intro preview_none) simp_all
qed

theorem failure_returns_null_witness:
  "open_rc (scripted False None both_sizes) (File ''a.dng'')
     (default_params (scripted False None both_sizes)) \<noteq> LIBRAW_SUCCESS \<and>
   (\<exists>rp. decode_thumbnail (scripted False None both_sizes) roomy (File ''a.dng'') =
      Inr (\<lparr>data = nullptr, size' = 0, width = 0, height = 0, format = 0\<rparr>, roomy, rp)) \<and>
   open_rc (scripted False None both_sizes) (WFile [97])
     (preview_open_params (scripted False None both_sizes) (WFile [97]) 1) \<noteq> LIBRAW_SUCCESS \<and>
   (\<exists>rp. decode_preview (scripted False None both_sizes) roomy (WFile [97]) 1 =
      Inr (\<lparr>data = nullptr, size' = 0, width = 0, height = 0\<rparr>, roomy, rp)) \<and>
   open_rc (scripted True None half_only) (File ''a.dng'')
     (preview_open_params (scripted True None half_only) (File ''a.dng'') 0) = LIBRAW_SUCCESS \<and>
   mem_image (scripted True None half_only) (Some (File ''a.dng''))
     (preview_params (scripted True None half_only) 0) = None \<and>
   (\<exists>rp. decode_preview (scripted True None half_only) roomy (File ''a.dng'') 0 =
      Inr (\<lparr>data = nullptr, size' = 0, width = 0, height = 0\<rparr>, roomy, rp) \<and>
      set (calls rp) \<subseteq> {Open, Unpack, Dcraw_process, Dcraw_make_mem_image, Recycle, Destructor})"
proof -
  let ?X = "scripted False None both_sizes"
  let ?N = "scripted True None half_only"
  let ?F = "File ''a.dng''"
  have o1: "open_rc ?X ?F (default_params ?X) \<noteq> LIBRAW_SUCCESS"
    and o2: "open_rc ?X (WFile [97]) (preview_open_params ?X (WFile [97]) 1) \<noteq> LIBRAW_SUCCESS"
    and o3: "open_rc ?N ?F (preview_open_params ?N ?F 0) = LIBRAW_SUCCESS"
    by (simp_all add: scripted_def LIBRAW_SUCCESS_def)
  have m: "mem_image ?N (Some ?F) (preview_params ?N 0) = None"
    by (simp add: scripted_def preview_params_def half_only_def)
  note A = failure_returns_null [where C = ?X and src = ?F and h = roomy,
      THEN conjunct1, rule_format, OF o1]
  note B = failure_returns_null [where C = ?X and src = "WFile [97]" and h = roomy and hs = 1,
      THEN conjunct2, THEN conjunct1, rule_format, OF o2]
  note C = failure_returns_null [where C = ?N and src = ?F and h = roomy and hs = 0,
      THEN conjunct2, THEN conjunct2, rule_format, OF conjI [OF o3 disjI2 [OF disjI2 [OF m]]]]
  from o1 o2 o3 m A B C show ?thesis by blast
qed

subsection \<open>Release of the source\<close>

text \<open>
  C5. Whatever path a decode call returns by, the processor holds no source afterwards and
  the last thing done to it is its destruction. \<open>recycle()\<close> is called on exactly the
  paths that follow a successful open; on the early return after a failed open the
  processor never held a source, and the destructor of the local object ends it.
\<close>

theorem source_released:
  "(decode_thumbnail C h src = Inr (res, h', rp) \<longrightarrow>
      opened rp = None \<and> last (calls rp) = Destructor \<and>
      (Recycle \<in> set (calls rp) \<longleftrightarrow> open_rc C src (default_params C) = LIBRAW_SUCCESS)) \<and>
   (decode_preview C h src hs = Inr (pres, ph', prp) \<longrightarrow>
      opened prp = None \<and> last (calls prp) = Destructor \<and>
      (Recycle \<in> set (calls prp) \<longleftrightarrow>
         open_rc C src (preview_open_params C src hs) = LIBRAW_SUCCESS))"
proof (rule conjI; rule impI)
  assume "decode_thumbnail C h src = Inr (res, h', rp)"
  then show "opened rp = None \<and> last (calls rp) = Destructor \<and>
      (Recycle \<in> set (calls rp) \<longleftrightarrow> open_rc C src (default_params C) = LIBRAW_SUCCESS)"
    by (cases src)
       (auto simp: wrapper_defs split: if_splits option.splits sum.splits prod.splits)
next
  assume "decode_preview C h src hs = Inr (pres, ph', prp)"
  then show "opened prp = None \<and> last (calls prp) = Destructor \<and>
      (Recycle \<in> set (calls prp) \<longleftrightarrow>
         open_rc C src (preview_open_params C src hs) = LIBRAW_SUCCESS)"
    by (cases src)
       (auto simp: wrapper_defs split: if_splits option.splits sum.splits prod.splits)
qed

theorem source_released_witness:
  "decode_thumbnail (scripted True (Some jpeg3) both_sizes) roomy (File ''a.dng'') =
     Inr (\<lparr>data = Ptr 1, size' = 3, width = 0, height = 0, format = 0\<rparr>,
          roomy\<lparr>blocks := [(1, [255, 216, 255])]\<rparr>,
          \<lparr>imgdata_params = \<lparr>use_camera_wb = 0, half_size = 0, output_bps = 8, output_color = 1\<rparr>,
             opened = None,
             calls = [Open, Unpack_thumb, Dcraw_make_mem_thumb, Dcraw_clear_mem, Recycle,
                      Destructor]\<rparr>) \<and>
   open_rc (scripted True (Some jpeg3) both_sizes) (File ''a.dng'')
     (default_params (scripted True (Some jpeg3) both_sizes)) = LIBRAW_SUCCESS \<and>
   decode_preview (scripted False None both_sizes) roomy (File ''a.dng'') 1 =
     Inr (\<lparr>data = nullptr, size' = 0, width = 0, height = 0\<rparr>, roomy,
          \<lparr>imgdata_params = \<lparr>use_camera_wb = 0, half_size = 0, output_bps = 8, output_color = 1\<rparr>,
             opened = None, calls = [Open, Destructor]\<rparr>) \<and>
   open_rc (scripted False None both_sizes) (File ''a.dng'')
     (preview_open_params (scripted False None both_sizes) (File ''a.dng'') 1) \<noteq> LIBRAW_SUCCESS \<and>
   last [Open, Unpack_thumb, Dcraw_make_mem_thumb, Dcraw_clear_mem, Recycle, Destructor] = Destructor \<and>
   Recycle \<in> set [Open, Unpack_thumb, Dcraw_make_mem_thumb, Dcraw_clear_mem, Recycle, Destructor] \<and>
   last [Open, Destructor] = Destructor \<and>
   Recycle \<notin> set [Open, Destructor]"
proof -
  let ?J = "scripted True (Some jpeg3) both_sizes"
  let ?X = "scripted False None both_sizes"
  let ?F = "File ''a.dng''"
  let ?RP = "\<lparr>imgdata_params = \<lparr>use_camera_wb = 0, half_size = 0, output_bps = 8, output_color = 1\<rparr>,
             opened = None,
             calls = [Open, Unpack_thumb, Dcraw_make_mem_thumb, Dcraw_clear_mem, Recycle,
                      Destructor]\<rparr>"
  let ?XP = "\<lparr>imgdata_params = \<lparr>use_camera_wb = 0, half_size = 0, output_bps = 8, output_color = 1\<rparr>,
             opened = None, calls = [Open, Destructor]\<rparr>"
  from source_released [where C = ?J and src = ?F and h = roomy, THEN conjunct1, rule_format,
      OF run_thumbnail_jpeg]
  have A: "opened ?RP = None \<and> last (calls ?RP) = Destructor \<and>
      (Recycle \<in> set (calls ?RP) \<longleftrightarrow> open_rc ?J ?F (default_params ?J) = LIBRAW_SUCCESS)" .
  from source_released [where C = ?X and src = ?F and h = roomy and hs = 1, THEN conjunct2,
      rule_format, OF run_preview_closed]
  have B: "opened ?XP = None \<and> last (calls ?XP) = Destructor \<and>
      (Recycle \<in> set (calls ?XP) \<longleftrightarrow>
         open_rc ?X ?F (preview_open_params ?X ?F 1) = LIBRAW_SUCCESS)" .
  from A B show ?thesis
    using run_thumbnail_jpeg run_preview_closed by simp
qed

subsection \<open>Two runs of the preview\<close>

text \<open>
  C8. Two calls of \<open>get_preview\<close> with \<open>halfSize = 1\<close> on the same source, with the
  same (deterministic) codec and whatever the heap each finds, return descriptors with the
  same width, the same height and the same byte count.
\<close>

theorem preview_structure_repeats:
  assumes "decode_preview C h1 src 1 = Inr (r1, h1', rp1)"
    and "decode_preview C h2 src 1 = Inr (r2, h2', rp2)"
  shows "width r1 = width r2 \<and> height r1 = height r2 \<and> size' r1 = size' r2"
proof -
  let ?zero = "\<lparr>data = nullptr, size' = 0, width = 0, height = 0\<rparr>"
  let ?dims = "\<lambda>r. (width r, height r, size' r)"
  have d: "?dims r = (case (if open_rc C src (preview_open_params C src 1) = LIBRAW_SUCCESS
                           then rendered C src (preview_params C 1) else None) of
                      None \<Rightarrow> (0, 0, 0)
                    | Some img \<Rightarrow> (uint (img_width img), uint (img_height img), sint (img_data_size img)))"
    if "decode_preview C h src 1 = Inr (r, h', rp)" for h r h' rp
    using preview_inv [OF that]
    by (auto dest: convert_image_fields)
  have "(width r1, height r1, size' r1) = (width r2, height r2, size' r2)"
    by (simp only: d [OF assms(1)] d [OF assms(2)])
  then show ?thesis by simp
qed

theorem preview_structure_repeats_witness:
  "decode_preview (scripted True None both_sizes) roomy (File ''a.dng'') 1 =
     Inr (\<lparr>data = Ptr 1, size' = 6, width = 2, height = 1\<rparr>,
          roomy\<lparr>blocks := [(1, [30, 20, 10, 60, 50, 40])]\<rparr>,
          \<lparr>imgdata_params = \<lparr>use_camera_wb = 1, half_size = 1, output_bps = 8, output_color = 1\<rparr>,
             opened = None,
             calls = [Open, Unpack, Dcraw_process, Dcraw_make_mem_image, Dcraw_clear_mem,
                      Recycle, Destructor]\<rparr>) \<and>
   decode_preview (scripted True None both_sizes)
       (roomy\<lparr>blocks := [(1, [30, 20, 10, 60, 50, 40])]\<rparr>) (File ''a.dng'') 1 =
     Inr (\<lparr>data = Ptr 2, size' = 6, width = 2, height = 1\<rparr>,
          roomy\<lparr>blocks := [(2, [30, 20, 10, 60, 50, 40]), (1, [30, 20, 10, 60, 50, 40])]\<rparr>,
          \<lparr>imgdata_params = \<lparr>use_camera_wb = 1, half_size = 1, output_bps = 8, output_color = 1\<rparr>,
             opened = None,
             calls = [Open, Unpack, Dcraw_process, Dcraw_make_mem_image, Dcraw_clear_mem,
                      Recycle, Destructor]\<rparr>) \<and>
   width \<lparr>data = Ptr 1, size' = 6, width = 2, height = 1\<rparr> =
     width \<lparr>data = Ptr 2, size' = 6, width = 2, height = 1\<rparr> \<and>
   height \<lparr>data = Ptr 1, size' = 6, width = 2, height = 1\<rparr> =
     height \<lparr>data = Ptr 2, size' = 6, width = 2, height = 1\<rparr> \<and>
   size' \<lparr>data = Ptr 1, size' = 6, width = 2, height = 1\<rparr> =
     size' \<lparr>data = Ptr 2, size' = 6, width = 2, height = 1\<rparr>"
  using preview_structure_repeats [OF run_preview_half run_preview_half_again]
    run_preview_half run_preview_half_again
  by simp

subsection \<open>The fallback of the thumbnail path\<close>

text \<open>
  C2, as the code has it. When the source opens and the extraction of the embedded
  thumbnail fails, \<open>get_thumbnail\<close> goes on to unpack the sensor data with the
  parameters set to camera white balance, half size and 8 bits. When unpack and render
  succeed and the rendered image is materialised and holds its pixels, the call returns a
  descriptor tagged RawBitmap (format 1) whose width and height are those of the codec's
  half-size image and whose byte count is the codec's \<open>data_size\<close>, as the \<open>int\<close>
  it is stored in. When unpack and render succeed and no image is materialised, the call
  returns the all-zero descriptor on an unchanged heap.
\<close>

theorem thumbnail_fallback_bitmap:
  "(open_rc C src (default_params C) = LIBRAW_SUCCESS \<and> embedded_thumb C src = None \<and>
    decode_thumbnail C h src = Inr (res, h', rp) \<longrightarrow>
      Unpack \<in> set (calls rp) \<and> use_camera_wb (imgdata_params rp) = 1 \<and>
      half_size (imgdata_params rp) = 1 \<and> output_bps (imgdata_params rp) = 8) \<and>
   (open_rc C src (default_params C) = LIBRAW_SUCCESS \<and> embedded_thumb C src = None \<and>
    unpack_rc C (Some src) (fallback_params C) = LIBRAW_SUCCESS \<and>
    process_rc C (Some src) (fallback_params C) = LIBRAW_SUCCESS \<and>
    mem_image C (Some src) (fallback_params C) = Some img \<and> holds_pixels img \<longrightarrow>
      (\<exists>tres th trp. decode_thumbnail C h src = Inr (tres, th, trp) \<and>
         format tres = 1 \<and>
         width tres = uint (img_width img) \<and> height tres = uint (img_height img) \<and>
         size' tres = sint (img_data_size img))) \<and>
   (open_rc C src (default_params C) = LIBRAW_SUCCESS \<and> embedded_thumb C src = None \<and>
    unpack_rc C (Some src) (fallback_params C) = LIBRAW_SUCCESS \<and>
    process_rc C (Some src) (fallback_params C) = LIBRAW_SUCCESS \<and>
    mem_image C (Some src) (fallback_params C) = None \<longrightarrow>
      (\<exists>trp. decode_thumbnail C h src =
         Inr (\<lparr>data = nullptr, size' = 0, width = 0, height = 0, format = 0\<rparr>, h, trp)))"
proof (rule conjI; (rule conjI)?; rule impI)
  assume "open_rc C src (default_params C) = LIBRAW_SUCCESS \<and> embedded_thumb C src = None \<and>
    decode_thumbnail C h src = Inr (res, h', rp)"
  then have "imgdata_params rp = fallback_params C \<and> Unpack \<in> set (calls rp)"
    by (intro thumbnail_fallback_params [of C h src res h' rp]) simp_all
  then show "Unpack \<in> set (calls rp) \<and> use_camera_wb (imgdata_params rp) = 1 \<and>
      half_size (imgdata_params rp) = 1 \<and> output_bps (imgdata_params rp) = 8"
    by (simp add: fallback_params_def)
next
  assume a: "open_rc C src (default_params C) = LIBRAW_SUCCESS \<and> embedded_thumb C src = None \<and>
    unpack_rc C (Some src) (fallback_params C) = LIBRAW_SUCCESS \<and>
    process_rc C (Some src) (fallback_params C) = LIBRAW_SUCCESS \<and>
    mem_image C (Some src) (fallback_params C) = Some img \<and> holds_pixels img"
  let ?one = "\<lparr>data = nullptr, size' = 0, width = 0, height = 0, format = 1\<rparr>"
  from a have r: "rendered C src (fallback_params C) = Some img"
    by (simp add: rendered_def)
  from a have ok: "holds_pixels img" by simp
  from convert_image_returns [OF ok] obtain tres th
    where c: "convert_image h ?one img = Inr (tres, th)" by blast
  from a thumbnail_fallback [OF _ _ r c] obtain trp
    where d: "decode_thumbnail C h src = Inr (tres, th, trp)" by blast
  from convert_image_fields [OF c] convert_image_format [OF c]
  have f: "width tres = uint (img_width img)" "height tres = uint (img_height img)"
    "size' tres = sint (img_data_size img)" "format tres = 1"
    by simp_all
  with d show "\<exists>tres th trp. decode_thumbnail C h src = Inr (tres, th, trp) \<and>
         format tres = 1 \<and>
         width tres = uint (img_width img) \<and> height tres = uint (img_height img) \<and>
         size' tres = sint (img_data_size img)"
    by blast
next
  assume a: "open_rc C src (default_params C) = LIBRAW_SUCCESS \<and> embedded_thumb C src = None \<and>
    unpack_rc C (Some src) (fallback_params C) = LIBRAW_SUCCESS \<and>
    process_rc C (Some src) (fallback_params C) = LIBRAW_SUCCESS \<and>
    mem_image C (Some src) (fallback_params C) = None"
  then have r: "rendered C src (fallback_params C) = None"
    by (simp add: rendered_def)
  from a thumbnail_fallback_none [OF _ _ r, of h]
  show "\<exists>trp. decode_thumbnail C h src =
         Inr (\<lparr>data = nullptr, size' = 0, width = 0, height = 0, format = 0\<rparr>, h, trp)"
    by blast
qed

theorem thumbnail_fallback_bitmap_witness:
  "embedded_thumb (scripted True None renders_padded) (File ''a.dng'') = None \<and>
   decode_thumbnail (scripted True None renders_padded) roomy (File ''a.dng'') =
     Inr (\<lparr>data = Ptr 1, size' = 8, width = 2, height = 1, format = 1\<rparr>,
          roomy\<lparr>blocks := [(1, [30, 20, 10, 60, 50, 40, 0, 0])]\<rparr>,
          \<lparr>imgdata_params = \<lparr>use_camera_wb = 1, half_size = 1, output_bps = 8, output_color = 1\<rparr>,
             opened = None,
             calls = [Open, Unpack_thumb, Unpack, Dcraw_process, Dcraw_make_mem_image,
                      Dcraw_clear_mem, Recycle, Destructor]\<rparr>) \<and>
   mem_image (scripted True None renders_padded) (Some (File ''a.dng''))
     (fallback_params (scripted True None renders_padded)) = Some padded2x1 \<and>
   holds_pixels padded2x1 \<and>
   (\<exists>tres th trp. decode_thumbnail (scripted True None renders_padded) roomy (File ''a.dng'') =
        Inr (tres, th, trp) \<and>
      format tres = 1 \<and> width tres = 2 \<and> height tres = 1 \<and> size' tres = 8) \<and>
   mem_image (scripted True None renders_nothing) (Some (File ''a.dng''))
     (fallback_params (scripted True None renders_nothing)) = None \<and>
   (\<exists>trp. decode_thumbnail (scripted True None renders_nothing) roomy (File ''a.dng'') =
      Inr (\<lparr>data = nullptr, size' = 0, width = 0, height = 0, format = 0\<rparr>, roomy, trp))"
proof -
  let ?C = "scripted True None renders_padded"
  let ?N = "scripted True None renders_nothing"
  let ?F = "File ''a.dng''"
  let ?T = "\<lparr>data = Ptr 1, size' = 8, width = 2, height = 1, format = 1\<rparr>"
  let ?H = "roomy\<lparr>blocks := [(1, [30, 20, 10, 60, 50, 40, 0, 0])]\<rparr>"
  let ?TP = "\<lparr>imgdata_params = \<lparr>use_camera_wb = 1, half_size = 1, output_bps = 8, output_color = 1\<rparr>,
             opened = None,
             calls = [Open, Unpack_thumb, Unpack, Dcraw_process, Dcraw_make_mem_image,
                      Dcraw_clear_mem, Recycle, Destructor]\<rparr>"
  have o: "open_rc ?C ?F (default_params ?C) = LIBRAW_SUCCESS"
    and u: "unpack_rc ?C (Some ?F) (fallback_params ?C) = LIBRAW_SUCCESS"
    and p: "process_rc ?C (Some ?F) (fallback_params ?C) = LIBRAW_SUCCESS"
    and on: "open_rc ?N ?F (default_params ?N) = LIBRAW_SUCCESS"
    and un: "unpack_rc ?N (Some ?F) (fallback_params ?N) = LIBRAW_SUCCESS"
    and pn: "process_rc ?N (Some ?F) (fallback_params ?N) = LIBRAW_SUCCESS"
    by (simp_all add: scripted_def LIBRAW_SUCCESS_def)
  have e: "embedded_thumb ?C ?F = None" and en: "embedded_thumb ?N ?F = None"
    by (simp_all add: embedded_thumb_def scripted_def LIBRAW_SUCCESS_def)
  have m: "mem_image ?C (Some ?F) (fallback_params ?C) = Some padded2x1"
    and mn: "mem_image ?N (Some ?F) (fallback_params ?N) = None"
    by (simp_all add: fallback_params_def scripted_def renders_padded_def renders_nothing_def)
  have g: "holds_pixels padded2x1"
    by (simp add: holds_pixels_def padded2x1_def size_t_def INT_MAX_def)
  from thumbnail_fallback_bitmap [where C = ?C and src = ?F and h = roomy and res = ?T
      and h' = ?H and rp = ?TP, THEN conjunct1, rule_format,
      OF conjI [OF o conjI [OF e run_thumbnail_padded]]]
  have A: "Unpack \<in> set (calls ?TP) \<and> use_camera_wb (imgdata_params ?TP) = 1 \<and>
      half_size (imgdata_params ?TP) = 1 \<and> output_bps (imgdata_params ?TP) = 8" .
  from thumbnail_fallback_bitmap [where C = ?C and src = ?F and h = roomy and img = padded2x1,
      THEN conjunct2, THEN conjunct1, rule_format,
      OF conjI [OF o conjI [OF e conjI [OF u conjI [OF p conjI [OF m g]]]]]]
  obtain tres th trp where "decode_thumbnail ?C roomy ?F = Inr (tres, th, trp)"
    and "format tres = 1" and "width tres = uint (img_width padded2x1)"
    and "height tres = uint (img_height padded2x1)"
    and "size' tres = sint (img_data_size padded2x1)"
    by blast
  then have "decode_thumbnail ?C roomy ?F = Inr (tres, th, trp) \<and>
      format tres = 1 \<and> width tres = 2 \<and> height tres = 1 \<and> size' tres = 8"
    by (simp add: padded2x1_def)
  then have B: "\<exists>tres th trp. decode_thumbnail ?C roomy ?F = Inr (tres, th, trp) \<and>
      format tres = 1 \<and> width tres = 2 \<and> height tres = 1 \<and> size' tres = 8"
    by blast
  note D = thumbnail_fallback_bitmap [where C = ?N and src = ?F and h = roomy,
      THEN conjunct2, THEN conjunct2, rule_format,
      OF conjI [OF on conjI [OF en conjI [OF un conjI [OF pn mn]]]]]
  from A B D e m mn g show ?thesis
    using run_thumbnail_padded by simp
qed

text \<open>
  The claim as stated promises, on render success, a RawBitmap whose byte count is
  \<open>width \<times> height \<times> 3\<close>. Three runs, each with unpack and render successful. In the
  first \<open>dcraw_make_mem_image\<close> returns no image: the guard \<^verbatim>\<open>if (image)\<close> skips
  the conversion and the all-zero descriptor, format 0, comes back. In the second the
  codec's 2 by 1 image reports \<open>data_size\<close> 8: the byte count is 8, not 6, since the
  wrapper copies \<open>data_size\<close>. In the third the 2 by 1 image has 2 bytes: the conversion
  leaves the buffers and the call has no defined result.
\<close>

theorem thumbnail_fallback_counterexample:
  "embedded_thumb (scripted True None renders_nothing) (File ''a.dng'') = None \<and>
   unpack_rc (scripted True None renders_nothing) (Some (File ''a.dng''))
     (fallback_params (scripted True None renders_nothing)) = LIBRAW_SUCCESS \<and>
   process_rc (scripted True None renders_nothing) (Some (File ''a.dng''))
     (fallback_params (scripted True None renders_nothing)) = LIBRAW_SUCCESS \<and>
   result_of (decode_thumbnail (scripted True None renders_nothing) roomy (File ''a.dng'')) =
     Some \<lparr>data = nullptr, size' = 0, width = 0, height = 0, format = 0\<rparr> \<and>
   map_option format
     (result_of (decode_thumbnail (scripted True None renders_nothing) roomy (File ''a.dng''))) \<noteq>
     Some 1 \<and>
   embedded_thumb (scripted True None renders_padded) (File ''a.dng'') = None \<and>
   rendered (scripted True None renders_padded) (File ''a.dng'')
     (fallback_params (scripted True None renders_padded)) = Some padded2x1 \<and>
   length (img_data padded2x1) = unat (img_data_size padded2x1) \<and>
   result_of (decode_thumbnail (scripted True None renders_padded) roomy (File ''a.dng'')) =
     Some \<lparr>data = Ptr 1, size' = 8, width = 2, height = 1, format = 1\<rparr> \<and>
   size' \<lparr>data = Ptr 1, size' = 8, width = 2, height = 1, format = 1\<rparr> \<noteq>
     width \<lparr>data = Ptr 1, size' = 8, width = 2, height = 1, format = 1\<rparr> *
     height \<lparr>data = Ptr 1, size' = 8, width = 2, height = 1, format = 1\<rparr> * 3 \<and>
   embedded_thumb (scripted True None renders_mono) (File ''a.dng'') = None \<and>
   rendered (scripted True None renders_mono) (File ''a.dng'')
     (fallback_params (scripted True None renders_mono)) = Some mono2x1 \<and>
   result_of (decode_thumbnail (scripted True None renders_mono) roomy (File ''a.dng'')) = None"
proof -
  let ?N = "scripted True None renders_nothing"
  let ?P = "scripted True None renders_padded"
  let ?M = "scripted True None renders_mono"
  let ?F = "File ''a.dng''"
  have "embedded_thumb ?N ?F = None" "embedded_thumb ?P ?F = None" "embedded_thumb ?M ?F = None"
    by (simp_all add: embedded_thumb_def scripted_def LIBRAW_SUCCESS_def)
  moreover have "unpack_rc ?N (Some ?F) (fallback_params ?N) = LIBRAW_SUCCESS"
    and "process_rc ?N (Some ?F) (fallback_params ?N) = LIBRAW_SUCCESS"
    by (simp_all add: scripted_def LIBRAW_SUCCESS_def)
  moreover have "rendered ?P ?F (fallback_params ?P) = Some padded2x1"
    and "rendered ?M ?F (fallback_params ?M) = Some mono2x1"
    by (simp_all add: rendered_def scripted_def renders_padded_def renders_mono_def
        LIBRAW_SUCCESS_def)
  moreover have "length (img_data padded2x1) = unat (img_data_size padded2x1)"
    by (simp add: padded2x1_def)
  moreover have "result_of (decode_thumbnail ?N roomy ?F) =
      Some \<lparr>data = nullptr, size' = 0, width = 0, height = 0, format = 0\<rparr>"
    by (simp only: run_thumbnail_nothing result_of_def sum.case prod.case)
  moreover have "result_of (decode_thumbnail ?P roomy ?F) =
      Some \<lparr>data = Ptr 1, size' = 8, width = 2, height = 1, format = 1\<rparr>"
    by (simp only: run_thumbnail_padded result_of_def sum.case prod.case)
  moreover have "result_of (decode_thumbnail ?M roomy ?F) = None"
    by (simp only: run_thumbnail_mono result_of_def sum.case)
  ultimately show ?thesis by simp
qed

subsection \<open>Full size against half size\<close>




end
